theory Spec2Isabelle
  imports Main "HOL-Library.Word"
begin

section \<open>RedisRemoteOtaiInterface: the client side of the OTAI redis protocol\<close>

text \<open>
  This theory embeds \<^verbatim>\<open>src/lib/RedisRemoteOtaiInterface.cpp\<close>. Every member
  function becomes a function that takes the object's state and returns the new state
  together with what the C++ function hands back. The classes the file only calls
  (the redis channel, the virtual object id manager, the attribute serializer, the
  metadata, the notification classes) are declared in headers that are not part of the
  source file; their operations are parameters, collected in the record
  \<open>externals\<close>, and are taken as total functions, as the interfaces in section 6
  of the specification give them.
\<close>

subsection \<open>Plain data\<close>

type_synonym otai_object_id_t = "64 word"

text \<open>The null object id, \<^verbatim>\<open>OTAI_NULL_OBJECT_ID\<close>, is the id zero.\<close>

definition OTAI_NULL_OBJECT_ID :: otai_object_id_t where
  "OTAI_NULL_OBJECT_ID = 0"

text \<open>
  The file singles out one member of the object type enum, the linecard. Every other
  member is kept by its ordinal.
\<close>

datatype otai_object_type_t =
    OTAI_OBJECT_TYPE_LINECARD
  | OTAI_OBJECT_TYPE_OTHER nat

text \<open>
  The status codes the file names, and every other code the backend may answer with.
\<close>

datatype otai_status_t =
    OTAI_STATUS_SUCCESS
  | OTAI_STATUS_FAILURE
  | OTAI_STATUS_INSUFFICIENT_RESOURCES
  | OTAI_STATUS_BUFFER_OVERFLOW
  | OTAI_STATUS_NOT_IMPLEMENTED
  | OTAI_STATUS_OTHER int

datatype otai_common_api_t =
    OTAI_COMMON_API_CREATE
  | OTAI_COMMON_API_REMOVE
  | OTAI_COMMON_API_SET

type_synonym otai_attr_id_t = "32 word"
type_synonym otai_stat_id_t = "32 word"

text \<open>
  Modelled from the spec: the attribute value union is declared outside the source
  file. The model keeps what \<^verbatim>\<open>get\<close> has to tell apart: a list of object ids
  (the list-valued fields of section 4.2) and any other value, kept as its bytes.
\<close>

datatype otai_attribute_value_t =
    OBJECT_LIST "otai_object_id_t list"
  | OTHER_VALUE string

record otai_attribute_t =
  attr_id :: otai_attr_id_t
  attr_value :: otai_attribute_value_t

text \<open>
  A pointer to attributes with its count is a list; \<^verbatim>\<open>attr_count\<close> is its length.
\<close>

type_synonym FieldValueTuple = "string \<times> string"
type_synonym KeyOpFieldsValuesTuple = "string \<times> string \<times> FieldValueTuple list"

definition fvValue :: "FieldValueTuple \<Rightarrow> string" where
  "fvValue fv = snd fv"

definition kfvFieldsValues :: "KeyOpFieldsValuesTuple \<Rightarrow> FieldValueTuple list" where
  "kfvFieldsValues kco = snd (snd kco)"

text \<open>
  \<^verbatim>\<open>otai_stat_value_t\<close> is a union of an unsigned 64-bit counter and a double; the
  double is kept as its 64 bits.
\<close>

datatype otai_stat_value_t = U64 "64 word" | D64 "64 word"

datatype otai_stat_value_type_t =
    OTAI_STAT_VALUE_TYPE_UINT64
  | OTAI_STAT_VALUE_TYPE_DOUBLE
  | OTAI_STAT_VALUE_TYPE_OTHER

text \<open>
  The table of notification callbacks of a linecard: four function pointers, each of
  them possibly null. A function pointer is kept as a number.
\<close>

type_synonym callback_ptr = nat
type_synonym otai_linecard_notifications_t = "callback_ptr option list"

definition no_notifications :: otai_linecard_notifications_t where
  "no_notifications = [None, None, None, None]"

subsection \<open>The redis channel\<close>

text \<open>The commands the file sends, and the tag it waits for.\<close>

datatype redis_command =
    REDIS_ASIC_STATE_COMMAND_CREATE
  | REDIS_ASIC_STATE_COMMAND_REMOVE
  | REDIS_ASIC_STATE_COMMAND_SET
  | REDIS_ASIC_STATE_COMMAND_GET
  | REDIS_ASIC_STATE_COMMAND_GET_STATS
  | REDIS_ASIC_STATE_COMMAND_CLEAR_STATS
  | REDIS_ASIC_STATE_COMMAND_GETRESPONSE

text \<open>
  Modelled from the spec: the class \<^verbatim>\<open>RedisChannel\<close> is not part of the source
  file. Section 6 gives the Transport Client as enqueue-and-forget \<^verbatim>\<open>set\<close> and
  \<^verbatim>\<open>del\<close>, a blocking \<^verbatim>\<open>wait\<close> for the next response, and \<^verbatim>\<open>flush\<close>. The
  model keeps the calls made on the channel, in order; what a wait answers is a
  parameter (\<open>wait_reply\<close> below) of the calls made before it.
\<close>

datatype channel_call =
    SetBuffered bool
  | ChannelSet string "FieldValueTuple list" redis_command
  | ChannelDel string redis_command
  | ChannelWait redis_command
  | ChannelFlush

record RedisChannel =
  dbName :: string
  calls :: "channel_call list"

definition RedisChannel_new :: "string \<Rightarrow> RedisChannel" where
  "RedisChannel_new name = \<lparr>dbName = name, calls = []\<rparr>"

definition channel_call :: "channel_call \<Rightarrow> RedisChannel \<Rightarrow> RedisChannel" where
  "channel_call c ch = ch\<lparr>calls := calls ch @ [c]\<rparr>"

subsection \<open>The linecard, the notifications and the metadata\<close>

text \<open>
  Modelled from the spec: the class \<^verbatim>\<open>Linecard\<close> is not part of the source file.
  Section 3 gives the Root Entity as its identifier and a table of notification
  callbacks.
\<close>

record Linecard =
  m_linecardId :: otai_object_id_t
  m_linecardNotifications :: otai_linecard_notifications_t

definition getLinecardNotifications :: "Linecard \<Rightarrow> otai_linecard_notifications_t" where
  "getLinecardNotifications lc = m_linecardNotifications lc"

text \<open>
  Modelled from the spec: a notification is the name and the serialized body it was
  decoded from; the metadata is the list of the notifications it has processed.
\<close>

record Notification =
  notificationName :: string
  notificationBody :: string

type_synonym Meta = "Notification list"

type_synonym DBConnector = "string \<times> nat"
type_synonym RedisVidIndexGenerator = "DBConnector option \<times> string"

subsection \<open>The collaborators\<close>

text \<open>
  The functions and constants declared outside the source file. \<open>'v\<close> is the state
  of the virtual object id manager.
\<close>

record 'v externals =
  OTAI_LINECARD_ATTR_CUSTOM_RANGE_START :: otai_attr_id_t
  OTAI_REDIS_LINECARD_ATTR_FLUSH :: otai_attr_id_t
  REDIS_KEY_VIDCOUNTER :: string
  VirtualObjectIdManager_new :: "RedisVidIndexGenerator option \<Rightarrow> 'v"
  allocateNewLinecardObjectId :: "'v \<Rightarrow> otai_object_id_t \<times> 'v"
  allocateNewObjectId :: "otai_object_type_t \<Rightarrow> otai_object_id_t \<Rightarrow> 'v \<Rightarrow> otai_object_id_t \<times> 'v"
  otaiLinecardIdQuery :: "otai_object_id_t \<Rightarrow> 'v \<Rightarrow> otai_object_id_t"
  otai_serialize_object_type :: "otai_object_type_t \<Rightarrow> string"
  otai_serialize_object_id :: "otai_object_id_t \<Rightarrow> string"
  serialize_attr_list :: "otai_object_type_t \<Rightarrow> otai_attribute_t list \<Rightarrow> bool \<Rightarrow> FieldValueTuple list"
  OtaiAttributeList :: "otai_object_type_t \<Rightarrow> FieldValueTuple list \<Rightarrow> bool \<Rightarrow> otai_attribute_t list"
  transfer_attributes :: "otai_object_type_t \<Rightarrow> nat \<Rightarrow> otai_attribute_t list \<Rightarrow> otai_attribute_t list \<Rightarrow> bool \<Rightarrow> otai_attribute_t list"
  statenum :: "otai_object_type_t \<Rightarrow> nat"
  serialize_counter_id_list :: "nat \<Rightarrow> otai_stat_id_t list \<Rightarrow> FieldValueTuple list"
  statvaluetype :: "otai_object_type_t \<Rightarrow> otai_stat_id_t \<Rightarrow> otai_stat_value_type_t"
  stoull :: "string \<Rightarrow> 64 word option"
  stod :: "string \<Rightarrow> 64 word option"
  wait_reply :: "channel_call list \<Rightarrow> otai_status_t \<times> KeyOpFieldsValuesTuple"
  Linecard_new :: "otai_object_id_t \<Rightarrow> otai_attribute_t list \<Rightarrow> Linecard"
  updateNotifications :: "otai_attribute_t list \<Rightarrow> Linecard \<Rightarrow> Linecard"
  deserialize :: "string \<Rightarrow> string \<Rightarrow> Notification option"
  getAnyObjectId :: "Notification \<Rightarrow> otai_object_id_t"
  processMetadata :: "Notification \<Rightarrow> Meta \<Rightarrow> Meta"
  callbackSlot :: "Notification \<Rightarrow> nat"

text \<open>
  The blocking wait of the channel: the call is recorded and the answer is the one the
  parameter gives for the calls made so far. \<^verbatim>\<open>std::stoull\<close> and \<^verbatim>\<open>std::stod\<close>
  answer \<open>None\<close> where they throw.
\<close>

definition channel_wait ::
  "'v externals \<Rightarrow> redis_command \<Rightarrow> RedisChannel \<Rightarrow>
     (otai_status_t \<times> KeyOpFieldsValuesTuple) \<times> RedisChannel" where
  "channel_wait ext tag ch = (wait_reply ext (calls ch), channel_call (ChannelWait tag) ch)"

subsection \<open>The state of the interface\<close>

text \<open>
  A \<^verbatim>\<open>shared_ptr\<close> member is an option, \<open>None\<close> for the null pointer. The weak
  pointer \<^verbatim>\<open>m_meta\<close> is the metadata it can be locked to, \<open>None\<close> once it has
  expired (or before \<^verbatim>\<open>setMeta\<close>). The log keeps every message written with
  \<^verbatim>\<open>SWSS_LOG_ERROR\<close>, \<^verbatim>\<open>SWSS_LOG_WARN\<close>, \<^verbatim>\<open>SWSS_LOG_NOTICE\<close> and
  \<^verbatim>\<open>SWSS_LOG_DEBUG\<close>, as its level and its format string.
\<close>

datatype log_level = LOG_ERROR | LOG_WARN | LOG_NOTICE | LOG_DEBUG

record 'v RedisRemoteOtaiInterface =
  m_initialized :: bool
  m_communicationChannel :: "RedisChannel option"
  m_db :: "DBConnector option"
  m_redisVidIndexGenerator :: "RedisVidIndexGenerator option"
  m_virtualObjectIdManager :: "'v option"
  m_linecard :: "Linecard option"
  m_meta :: "Meta option"
  swss_log :: "(log_level \<times> string) list"

definition SWSS_LOG ::
  "log_level \<Rightarrow> string \<Rightarrow> 'v RedisRemoteOtaiInterface \<Rightarrow> 'v RedisRemoteOtaiInterface" where
  "SWSS_LOG lvl msg st = st\<lparr>swss_log := swss_log st @ [(lvl, msg)]\<rparr>"

text \<open>
  How a member function ends: it returns a value, it throws (\<^verbatim>\<open>SWSS_LOG_THROW\<close>,
  or an exception of the standard library), or it dereferences a null pointer or
  writes past a buffer, which is undefined behaviour in C++ and ends the model's run
  with \<open>Crashed\<close>.
\<close>

datatype 'a outcome = Returned 'a | Thrown string | Crashed

subsection \<open>Lifecycle\<close>

definition clear_local_state ::
  "'v externals \<Rightarrow> 'v RedisRemoteOtaiInterface \<Rightarrow> 'v RedisRemoteOtaiInterface" where
  "clear_local_state ext st =
     (let st1 = SWSS_LOG LOG_NOTICE ''clearing local state'' st;
          st2 = st1\<lparr>m_linecard := None\<rparr>
      in st2\<lparr>m_virtualObjectIdManager :=
               Some (VirtualObjectIdManager_new ext (m_redisVidIndexGenerator st2))\<rparr>)"

text \<open>
  \<^verbatim>\<open>initialize\<close> uses neither of its arguments. The channel is made for the
  database \<^verbatim>\<open>ASIC_DB\<close> and set to unbuffered.
\<close>

definition initialize ::
  "'v externals \<Rightarrow> 64 word \<Rightarrow> nat option \<Rightarrow> 'v RedisRemoteOtaiInterface \<Rightarrow>
     otai_status_t \<times> 'v RedisRemoteOtaiInterface" where
  "initialize ext flags service_method_table st =
     (if m_initialized st
      then (OTAI_STATUS_FAILURE, SWSS_LOG LOG_ERROR ''already initialized'' st)
      else
        let st1 = st\<lparr>m_communicationChannel :=
                       Some (channel_call (SetBuffered False) (RedisChannel_new ''ASIC_DB''))\<rparr>;
            st2 = st1\<lparr>m_db := Some (''ASIC_DB'', 0)\<rparr>;
            st3 = st2\<lparr>m_redisVidIndexGenerator := Some (m_db st2, REDIS_KEY_VIDCOUNTER ext)\<rparr>;
            st4 = clear_local_state ext st3
        in (OTAI_STATUS_SUCCESS, st4\<lparr>m_initialized := True\<rparr>))"

definition uninitialize ::
  "'v externals \<Rightarrow> 'v RedisRemoteOtaiInterface \<Rightarrow>
     otai_status_t \<times> 'v RedisRemoteOtaiInterface" where
  "uninitialize ext st =
     (let st0 = SWSS_LOG LOG_NOTICE ''begin'' st
      in if \<not> m_initialized st0
         then (OTAI_STATUS_FAILURE, SWSS_LOG LOG_ERROR ''not initialized'' st0)
         else
           let st1 = st0\<lparr>m_communicationChannel := None\<rparr>;
               st2 = clear_local_state ext st1;
               st3 = st2\<lparr>m_initialized := False\<rparr>
           in (OTAI_STATUS_SUCCESS, SWSS_LOG LOG_NOTICE ''end'' st3))"

text \<open>
  The constructor starts from null pointers and calls \<^verbatim>\<open>initialize(0, nullptr)\<close>;
  the destructor calls \<^verbatim>\<open>uninitialize\<close> on an initialized object.
\<close>

definition RedisRemoteOtaiInterface_new :: "'v externals \<Rightarrow> 'v RedisRemoteOtaiInterface" where
  "RedisRemoteOtaiInterface_new ext =
     snd (initialize ext 0 None
       \<lparr>m_initialized = False, m_communicationChannel = None, m_db = None,
        m_redisVidIndexGenerator = None, m_virtualObjectIdManager = None,
        m_linecard = None, m_meta = None, swss_log = []\<rparr>)"

definition RedisRemoteOtaiInterface_delete ::
  "'v externals \<Rightarrow> 'v RedisRemoteOtaiInterface \<Rightarrow> 'v RedisRemoteOtaiInterface" where
  "RedisRemoteOtaiInterface_delete ext st =
     (if m_initialized st then snd (uninitialize ext st) else st)"

definition setMeta ::
  "Meta option \<Rightarrow> 'v RedisRemoteOtaiInterface \<Rightarrow> 'v RedisRemoteOtaiInterface" where
  "setMeta meta st = st\<lparr>m_meta := meta\<rparr>"

subsection \<open>Waiting for the response\<close>

definition waitForResponse ::
  "'v externals \<Rightarrow> otai_common_api_t \<Rightarrow> 'v RedisRemoteOtaiInterface \<Rightarrow>
     otai_status_t outcome \<times> 'v RedisRemoteOtaiInterface" where
  "waitForResponse ext api st =
     (case m_communicationChannel st of
        None \<Rightarrow> (Crashed, st)
      | Some ch \<Rightarrow>
          (case channel_wait ext REDIS_ASIC_STATE_COMMAND_GETRESPONSE ch of
             ((status, kco), ch') \<Rightarrow>
               (Returned status, st\<lparr>m_communicationChannel := Some ch'\<rparr>)))"

text \<open>
  \<^verbatim>\<open>waitForGetResponse\<close> also hands back the caller's attribute buffer, which it
  fills on success and on buffer overflow.
\<close>

definition waitForGetResponse ::
  "'v externals \<Rightarrow> otai_object_type_t \<Rightarrow> otai_attribute_t list \<Rightarrow>
     'v RedisRemoteOtaiInterface \<Rightarrow>
     otai_status_t outcome \<times> otai_attribute_t list \<times> 'v RedisRemoteOtaiInterface" where
  "waitForGetResponse ext objectType attr_list st =
     (case m_communicationChannel st of
        None \<Rightarrow> (Crashed, attr_list, st)
      | Some ch \<Rightarrow>
          (case channel_wait ext REDIS_ASIC_STATE_COMMAND_GETRESPONSE ch of
             ((status, kco), ch') \<Rightarrow>
               let st1 = st\<lparr>m_communicationChannel := Some ch'\<rparr>;
                   values = kfvFieldsValues kco
               in if status = OTAI_STATUS_SUCCESS then
                    (if length values = 0
                     then (Thrown ''logic error states = success, get response returned 0 values!, send api response or sync/async issue?'',
                           attr_list, st1)
                     else
                       let list = OtaiAttributeList ext objectType values False
                       in (Returned status,
                           transfer_attributes ext objectType (length attr_list) list attr_list False,
                           st1))
                  else if status = OTAI_STATUS_BUFFER_OVERFLOW then
                    (if length values = 0
                     then (Thrown ''logic error status = BUFFER_OVERFLOW, get response returned 0 values!, send api response or sync/async issue?'',
                           attr_list, st1)
                     else
                       let list = OtaiAttributeList ext objectType values True
                       in (Returned status,
                           transfer_attributes ext objectType (length attr_list) list attr_list True,
                           st1))
                  else (Returned status, attr_list, st1)))"

definition waitForClearStatsResponse ::
  "'v externals \<Rightarrow> 'v RedisRemoteOtaiInterface \<Rightarrow>
     otai_status_t outcome \<times> 'v RedisRemoteOtaiInterface" where
  "waitForClearStatsResponse ext st =
     (case m_communicationChannel st of
        None \<Rightarrow> (Crashed, st)
      | Some ch \<Rightarrow>
          (case channel_wait ext REDIS_ASIC_STATE_COMMAND_GETRESPONSE ch of
             ((status, kco), ch') \<Rightarrow>
               (Returned status, st\<lparr>m_communicationChannel := Some ch'\<rparr>)))"

subsection \<open>The operations on a serialized object id\<close>

text \<open>
  The overloads that take the object id as a string carry the suffix \<open>_key\<close>, the
  ones that take it as an object id the suffix \<open>_oid\<close>. Each of them builds the key
  \<^verbatim>\<open>serializedObjectType + ":" + serializedObjectId\<close>.
\<close>

definition object_key :: "'v externals \<Rightarrow> otai_object_type_t \<Rightarrow> string \<Rightarrow> string" where
  "object_key ext objectType serializedObjectId =
     otai_serialize_object_type ext objectType @ '':'' @ serializedObjectId"

definition create_key ::
  "'v externals \<Rightarrow> otai_object_type_t \<Rightarrow> string \<Rightarrow> otai_attribute_t list \<Rightarrow>
     'v RedisRemoteOtaiInterface \<Rightarrow> otai_status_t outcome \<times> 'v RedisRemoteOtaiInterface" where
  "create_key ext object_type serializedObjectId attr_list st =
     (let entry0 = serialize_attr_list ext object_type attr_list False;
          entry = (if entry0 = [] then entry0 @ [(''NULL'', ''NULL'')] else entry0);
          key = object_key ext object_type serializedObjectId;
          st1 = SWSS_LOG LOG_NOTICE ''generic create key: %s, fields: %zu'' st
      in case m_communicationChannel st1 of
           None \<Rightarrow> (Crashed, st1)
         | Some ch \<Rightarrow>
             let st2 = st1\<lparr>m_communicationChannel :=
                   Some (channel_call (ChannelSet key entry REDIS_ASIC_STATE_COMMAND_CREATE) ch)\<rparr>
             in (case waitForResponse ext OTAI_COMMON_API_CREATE st2 of
                   (Returned status, st3) \<Rightarrow>
                     (Returned status,
                      SWSS_LOG LOG_NOTICE ''generic create key end: %s, fields: %zu'' st3)
                 | (Thrown msg, st3) \<Rightarrow> (Thrown msg, st3)
                 | (Crashed, st3) \<Rightarrow> (Crashed, st3)))"

definition remove_key ::
  "'v externals \<Rightarrow> otai_object_type_t \<Rightarrow> string \<Rightarrow>
     'v RedisRemoteOtaiInterface \<Rightarrow> otai_status_t outcome \<times> 'v RedisRemoteOtaiInterface" where
  "remove_key ext objectType serializedObjectId st =
     (let key = object_key ext objectType serializedObjectId;
          st1 = SWSS_LOG LOG_NOTICE ''generic remove key: %s'' st
      in case m_communicationChannel st1 of
           None \<Rightarrow> (Crashed, st1)
         | Some ch \<Rightarrow>
             waitForResponse ext OTAI_COMMON_API_REMOVE
               (st1\<lparr>m_communicationChannel :=
                  Some (channel_call (ChannelDel key REDIS_ASIC_STATE_COMMAND_REMOVE) ch)\<rparr>))"

text \<open>
  \<^verbatim>\<open>set\<close> takes a pointer to one attribute; the serializer reads through it, so a
  null pointer ends the run.
\<close>

definition set_key ::
  "'v externals \<Rightarrow> otai_object_type_t \<Rightarrow> string \<Rightarrow> otai_attribute_t option \<Rightarrow>
     'v RedisRemoteOtaiInterface \<Rightarrow> otai_status_t outcome \<times> 'v RedisRemoteOtaiInterface" where
  "set_key ext objectType serializedObjectId attr st =
     (case attr of
        None \<Rightarrow> (Crashed, st)
      | Some a \<Rightarrow>
          let entry = serialize_attr_list ext objectType [a] False;
              key = object_key ext objectType serializedObjectId;
              st1 = SWSS_LOG LOG_DEBUG ''generic set key: %s, fields: %zu'' st
          in (case m_communicationChannel st1 of
                None \<Rightarrow> (Crashed, st1)
              | Some ch \<Rightarrow>
                  waitForResponse ext OTAI_COMMON_API_SET
                    (st1\<lparr>m_communicationChannel :=
                       Some (channel_call (ChannelSet key entry REDIS_ASIC_STATE_COMMAND_SET) ch)\<rparr>)))"

text \<open>
  Modelled from the spec: \<^verbatim>\<open>Utils::clearOidValues\<close> is not part of the source
  file. Section 4.2 has every list-valued field of the caller's buffer reset to a null
  representation, and the comment at the call says that all object ids are sent as
  null: each element of an object id list becomes the null object id, the length of
  the list (the room the caller offers) stays.
\<close>

fun clearOidValue :: "otai_attribute_value_t \<Rightarrow> otai_attribute_value_t" where
  "clearOidValue (OBJECT_LIST oids) = OBJECT_LIST (map (\<lambda>_. OTAI_NULL_OBJECT_ID) oids)"
| "clearOidValue (OTHER_VALUE v) = OTHER_VALUE v"

definition clearOidValues ::
  "otai_object_type_t \<Rightarrow> otai_attribute_t list \<Rightarrow> otai_attribute_t list" where
  "clearOidValues objectType attr_list =
     map (\<lambda>a. a\<lparr>attr_value := clearOidValue (attr_value a)\<rparr>) attr_list"

definition get_key ::
  "'v externals \<Rightarrow> otai_object_type_t \<Rightarrow> string \<Rightarrow> otai_attribute_t list \<Rightarrow>
     'v RedisRemoteOtaiInterface \<Rightarrow>
     otai_status_t outcome \<times> otai_attribute_t list \<times> 'v RedisRemoteOtaiInterface" where
  "get_key ext objectType serializedObjectId attr_list0 st =
     (let attr_list = clearOidValues objectType attr_list0;
          entry = serialize_attr_list ext objectType attr_list False;
          key = object_key ext objectType serializedObjectId;
          st1 = SWSS_LOG LOG_DEBUG ''generic get key: %s, fields: %lu'' st
      in case m_communicationChannel st1 of
           None \<Rightarrow> (Crashed, attr_list, st1)
         | Some ch \<Rightarrow>
             waitForGetResponse ext objectType attr_list
               (st1\<lparr>m_communicationChannel :=
                  Some (channel_call (ChannelSet key entry REDIS_ASIC_STATE_COMMAND_GET) ch)\<rparr>))"

subsection \<open>The operations on an object id\<close>

text \<open>
  \<^verbatim>\<open>create\<close> also hands back \<^verbatim>\<open>*objectId\<close>. The part of the function after the
  allocation (from the test of \<^verbatim>\<open>*objectId\<close> on) is \<open>create_allocated\<close>; its
  argument \<open>linecardId\<close> is only written to the log.
\<close>

definition create_allocated ::
  "'v externals \<Rightarrow> otai_object_type_t \<Rightarrow> otai_object_id_t \<Rightarrow> otai_object_id_t \<Rightarrow>
     otai_attribute_t list \<Rightarrow> 'v RedisRemoteOtaiInterface \<Rightarrow>
     otai_status_t outcome \<times> otai_object_id_t \<times> 'v RedisRemoteOtaiInterface" where
  "create_allocated ext objectType objectId linecardId attr_list st =
     (if objectId = OTAI_NULL_OBJECT_ID
      then (Returned OTAI_STATUS_INSUFFICIENT_RESOURCES, objectId,
            SWSS_LOG LOG_ERROR ''failed to create %s, with linecard id: %s'' st)
      else
        (case create_key ext objectType (otai_serialize_object_id ext objectId) attr_list st of
           (status, st1) \<Rightarrow>
             if objectType = OTAI_OBJECT_TYPE_LINECARD \<and> status = Returned OTAI_STATUS_SUCCESS
             then (status, objectId,
                   st1\<lparr>m_linecard := Some (Linecard_new ext objectId attr_list)\<rparr>)
             else (status, objectId, st1)))"

definition create_oid ::
  "'v externals \<Rightarrow> otai_object_type_t \<Rightarrow> otai_object_id_t \<Rightarrow> otai_attribute_t list \<Rightarrow>
     'v RedisRemoteOtaiInterface \<Rightarrow>
     otai_status_t outcome \<times> otai_object_id_t \<times> 'v RedisRemoteOtaiInterface" where
  "create_oid ext objectType linecardId0 attr_list st =
     (case m_virtualObjectIdManager st of
        None \<Rightarrow> (Crashed, OTAI_NULL_OBJECT_ID, st)
      | Some v \<Rightarrow>
          if objectType = OTAI_OBJECT_TYPE_LINECARD then
            (case allocateNewLinecardObjectId ext v of
               (linecardId, v') \<Rightarrow>
                 let st1 = st\<lparr>m_virtualObjectIdManager := Some v'\<rparr>
                 in if linecardId = OTAI_NULL_OBJECT_ID
                    then (Returned OTAI_STATUS_FAILURE, linecardId,
                          SWSS_LOG LOG_ERROR ''linecard ID allocation failed'' st1)
                    else create_allocated ext objectType linecardId linecardId attr_list st1)
          else
            (case allocateNewObjectId ext objectType linecardId0 v of
               (objectId, v') \<Rightarrow>
                 create_allocated ext objectType objectId linecardId0 attr_list
                   (st\<lparr>m_virtualObjectIdManager := Some v'\<rparr>)))"

definition remove_oid ::
  "'v externals \<Rightarrow> otai_object_type_t \<Rightarrow> otai_object_id_t \<Rightarrow>
     'v RedisRemoteOtaiInterface \<Rightarrow> otai_status_t outcome \<times> 'v RedisRemoteOtaiInterface" where
  "remove_oid ext objectType objectId st =
     (case remove_key ext objectType (otai_serialize_object_id ext objectId) st of
        (status, st1) \<Rightarrow>
          if objectType = OTAI_OBJECT_TYPE_LINECARD \<and> status = Returned OTAI_STATUS_SUCCESS
          then (status,
                (SWSS_LOG LOG_NOTICE ''removing linecard id %s'' st1)\<lparr>m_linecard := None\<rparr>)
          else (status, st1))"

definition isRedisAttribute ::
  "'v externals \<Rightarrow> otai_object_type_t \<Rightarrow> otai_attribute_t option \<Rightarrow> bool" where
  "isRedisAttribute ext objectType attr =
     (case attr of
        None \<Rightarrow> False
      | Some a \<Rightarrow>
          if objectType \<noteq> OTAI_OBJECT_TYPE_LINECARD
             \<or> attr_id a < OTAI_LINECARD_ATTR_CUSTOM_RANGE_START ext
          then False else True)"

definition setRedisExtensionAttribute ::
  "'v externals \<Rightarrow> otai_object_type_t \<Rightarrow> otai_object_id_t \<Rightarrow> otai_attribute_t option \<Rightarrow>
     'v RedisRemoteOtaiInterface \<Rightarrow> otai_status_t outcome \<times> 'v RedisRemoteOtaiInterface" where
  "setRedisExtensionAttribute ext objectType objectId attr st =
     (case attr of
        None \<Rightarrow> (Returned OTAI_STATUS_FAILURE, SWSS_LOG LOG_ERROR ''attr pointer is null'' st)
      | Some a \<Rightarrow>
          if attr_id a = OTAI_REDIS_LINECARD_ATTR_FLUSH ext then
            (case m_communicationChannel st of
               None \<Rightarrow> (Crashed, st)
             | Some ch \<Rightarrow>
                 (Returned OTAI_STATUS_SUCCESS,
                  st\<lparr>m_communicationChannel := Some (channel_call ChannelFlush ch)\<rparr>))
          else (Returned OTAI_STATUS_FAILURE,
                SWSS_LOG LOG_ERROR ''unknown redis extension attribute: %d'' st))"

definition set_oid ::
  "'v externals \<Rightarrow> otai_object_type_t \<Rightarrow> otai_object_id_t \<Rightarrow> otai_attribute_t option \<Rightarrow>
     'v RedisRemoteOtaiInterface \<Rightarrow> otai_status_t outcome \<times> 'v RedisRemoteOtaiInterface" where
  "set_oid ext objectType objectId attr st =
     (if isRedisAttribute ext objectType attr
      then setRedisExtensionAttribute ext objectType objectId attr st
      else
        (case set_key ext objectType (otai_serialize_object_id ext objectId) attr st of
           (status, st1) \<Rightarrow>
             if objectType = OTAI_OBJECT_TYPE_LINECARD \<and> status = Returned OTAI_STATUS_SUCCESS
             then (case (m_linecard st1, attr) of
                     (Some lc, Some a) \<Rightarrow>
                       (status, st1\<lparr>m_linecard := Some (updateNotifications ext [a] lc)\<rparr>)
                   | _ \<Rightarrow> (status, st1))
             else (status, st1)))"

definition get_oid ::
  "'v externals \<Rightarrow> otai_object_type_t \<Rightarrow> otai_object_id_t \<Rightarrow> otai_attribute_t list \<Rightarrow>
     'v RedisRemoteOtaiInterface \<Rightarrow>
     otai_status_t outcome \<times> otai_attribute_t list \<times> 'v RedisRemoteOtaiInterface" where
  "get_oid ext objectType objectId attr_list st =
     get_key ext objectType (otai_serialize_object_id ext objectId) attr_list st"

subsection \<open>Statistics\<close>

text \<open>
  The loop of \<^verbatim>\<open>waitForGetStatsResponse\<close> over \<^verbatim>\<open>idx\<close>, from \<open>idx\<close> on:
  the first argument is what is left of \<^verbatim>\<open>counter_ids\<close>. The loop writes into
  the caller's array in place, so its result is how it ended together with the array as
  it has left it: when \<^verbatim>\<open>stoull\<close> or \<^verbatim>\<open>stod\<close> throws on a value, the counters
  stored before stay stored. A counter of neither value type is left as it is.
\<close>

fun decode_counters ::
  "'v externals \<Rightarrow> otai_object_type_t \<Rightarrow> otai_stat_id_t list \<Rightarrow> FieldValueTuple list \<Rightarrow>
     nat \<Rightarrow> otai_stat_value_t list \<Rightarrow> unit outcome \<times> otai_stat_value_t list" where
  "decode_counters ext object_type [] values idx counters = (Returned (), counters)"
| "decode_counters ext object_type (counter_id # counter_ids) values idx counters =
     (if statvaluetype ext object_type counter_id = OTAI_STAT_VALUE_TYPE_UINT64 then
        (case stoull ext (fvValue (values ! idx)) of
           None \<Rightarrow> (Thrown ''stoull'', counters)
         | Some u64 \<Rightarrow>
             if idx < length counters
             then decode_counters ext object_type counter_ids values (Suc idx)
                    (counters[idx := U64 u64])
             else (Crashed, counters))
      else if statvaluetype ext object_type counter_id = OTAI_STAT_VALUE_TYPE_DOUBLE then
        (case stod ext (fvValue (values ! idx)) of
           None \<Rightarrow> (Thrown ''stod'', counters)
         | Some d64 \<Rightarrow>
             if idx < length counters
             then decode_counters ext object_type counter_ids values (Suc idx)
                    (counters[idx := D64 d64])
             else (Crashed, counters))
      else decode_counters ext object_type counter_ids values (Suc idx) counters)"

text \<open>
  \<^verbatim>\<open>number_of_counters\<close> is the length of \<open>counter_ids\<close>; \<open>counters\<close> is the
  caller's array for the values, handed back as the call has left it, also when the
  call throws.
\<close>

definition waitForGetStatsResponse ::
  "'v externals \<Rightarrow> otai_object_type_t \<Rightarrow> otai_stat_id_t list \<Rightarrow> otai_stat_value_t list \<Rightarrow>
     'v RedisRemoteOtaiInterface \<Rightarrow>
     otai_status_t outcome \<times> otai_stat_value_t list \<times> 'v RedisRemoteOtaiInterface" where
  "waitForGetStatsResponse ext object_type counter_ids counters st =
     (case m_communicationChannel st of
        None \<Rightarrow> (Crashed, counters, st)
      | Some ch \<Rightarrow>
          (case channel_wait ext REDIS_ASIC_STATE_COMMAND_GETRESPONSE ch of
             ((status, kco), ch') \<Rightarrow>
               let st1 = st\<lparr>m_communicationChannel := Some ch'\<rparr>
               in if status = OTAI_STATUS_SUCCESS then
                    (let values = kfvFieldsValues kco
                     in if length values \<noteq> length counter_ids
                        then (Thrown ''wrong number of counters, got %zu, expected %u'',
                              counters, st1)
                        else
                          (case decode_counters ext object_type counter_ids values 0 counters of
                             (Returned u, counters') \<Rightarrow> (Returned status, counters', st1)
                           | (Thrown msg, counters') \<Rightarrow> (Thrown msg, counters', st1)
                           | (Crashed, counters') \<Rightarrow> (Crashed, counters', st1)))
                  else (Returned status, counters, st1)))"

definition getStats ::
  "'v externals \<Rightarrow> otai_object_type_t \<Rightarrow> otai_object_id_t \<Rightarrow> otai_stat_id_t list \<Rightarrow>
     otai_stat_value_t list \<Rightarrow> 'v RedisRemoteOtaiInterface \<Rightarrow>
     otai_status_t outcome \<times> otai_stat_value_t list \<times> 'v RedisRemoteOtaiInterface" where
  "getStats ext object_type object_id counter_ids counters st =
     (let stats_enum = statenum ext object_type;
          entry = serialize_counter_id_list ext stats_enum counter_ids;
          key = object_key ext object_type (otai_serialize_object_id ext object_id);
          st1 = SWSS_LOG LOG_DEBUG ''generic get stats key: %s, fields: %zu'' st
      in case m_communicationChannel st1 of
           None \<Rightarrow> (Crashed, counters, st1)
         | Some ch \<Rightarrow>
             waitForGetStatsResponse ext object_type counter_ids counters
               (st1\<lparr>m_communicationChannel :=
                  Some (channel_call (ChannelSet key entry REDIS_ASIC_STATE_COMMAND_GET_STATS) ch)\<rparr>))"

definition getStatsExt ::
  "'v RedisRemoteOtaiInterface \<Rightarrow> otai_status_t outcome \<times> 'v RedisRemoteOtaiInterface" where
  "getStatsExt st = (Returned OTAI_STATUS_NOT_IMPLEMENTED, SWSS_LOG LOG_ERROR ''not implemented'' st)"

definition clearStats ::
  "'v externals \<Rightarrow> otai_object_type_t \<Rightarrow> otai_object_id_t \<Rightarrow> otai_stat_id_t list \<Rightarrow>
     'v RedisRemoteOtaiInterface \<Rightarrow> otai_status_t outcome \<times> 'v RedisRemoteOtaiInterface" where
  "clearStats ext object_type object_id counter_ids st =
     (let stats_enum = statenum ext object_type;
          values = serialize_counter_id_list ext stats_enum counter_ids;
          key = object_key ext object_type (otai_serialize_object_id ext object_id);
          st1 = SWSS_LOG LOG_DEBUG ''generic clear stats key: %s, fields: %zu'' st
      in case m_communicationChannel st1 of
           None \<Rightarrow> (Crashed, st1)
         | Some ch \<Rightarrow>
             waitForClearStatsResponse ext
               (st1\<lparr>m_communicationChannel :=
                  Some (channel_call (ChannelSet key values REDIS_ASIC_STATE_COMMAND_CLEAR_STATS) ch)\<rparr>))"

subsection \<open>Notifications\<close>

text \<open>
  \<^verbatim>\<open>syncProcessNotification\<close> answers with the table of callbacks the notification
  is to be given to.
\<close>

definition syncProcessNotification ::
  "'v externals \<Rightarrow> Notification \<Rightarrow> 'v RedisRemoteOtaiInterface \<Rightarrow>
     otai_linecard_notifications_t outcome \<times> 'v RedisRemoteOtaiInterface" where
  "syncProcessNotification ext notification st =
     (case m_meta st of
        None \<Rightarrow> (Returned [None, None, None, None],
                 SWSS_LOG LOG_WARN ''meta pointer expired'' st)
      | Some meta \<Rightarrow>
          let st1 = st\<lparr>m_meta := Some (processMetadata ext notification meta)\<rparr>;
              objectId = getAnyObjectId ext notification
          in (case m_virtualObjectIdManager st1 of
                None \<Rightarrow> (Crashed, st1)
              | Some v \<Rightarrow>
                  let linecardId = otaiLinecardIdQuery ext objectId v
                  in (case m_linecard st1 of
                        Some lc \<Rightarrow> (Returned (getLinecardNotifications lc), st1)
                      | None \<Rightarrow>
                          (Returned [None, None, None, None],
                           SWSS_LOG LOG_WARN
                             ''linecard %s not present in container, returning empty linecard notifications''
                             st1))))"

text \<open>
  Modelled from the spec: \<^verbatim>\<open>Notification::executeCallback\<close> is not part of the
  source file. Section 4.5 has it invoke the notification's associated callback using
  the callback table: the entry of the table that belongs to the notification is called
  when it is not null. The result is the list of the callbacks called.
\<close>

definition executeCallback ::
  "'v externals \<Rightarrow> Notification \<Rightarrow> otai_linecard_notifications_t \<Rightarrow> callback_ptr list" where
  "executeCallback ext notification sn =
     (if callbackSlot ext notification < length sn
      then (case sn ! callbackSlot ext notification of None \<Rightarrow> [] | Some f \<Rightarrow> [f])
      else [])"

text \<open>
  \<^verbatim>\<open>handleNotification\<close> runs on the notification thread. Its result is the list
  of the user callbacks it has called. \<open>m_notificationCallback\<close> is the function given
  to the constructor; the owner of the interface binds it to
  \<^verbatim>\<open>syncProcessNotification\<close>.
\<close>

definition handleNotification ::
  "'v externals \<Rightarrow>
     (Notification \<Rightarrow> 'v RedisRemoteOtaiInterface \<Rightarrow>
        otai_linecard_notifications_t outcome \<times> 'v RedisRemoteOtaiInterface) \<Rightarrow>
     string \<Rightarrow> string \<Rightarrow> FieldValueTuple list \<Rightarrow> 'v RedisRemoteOtaiInterface \<Rightarrow>
     callback_ptr list outcome \<times> 'v RedisRemoteOtaiInterface" where
  "handleNotification ext m_notificationCallback name serializedNotification values st =
     (case deserialize ext name serializedNotification of
        None \<Rightarrow> (Returned [], st)
      | Some notification \<Rightarrow>
          (case m_notificationCallback notification st of
             (Returned sn, st1) \<Rightarrow> (Returned (executeCallback ext notification sn), st1)
           | (Thrown msg, st1) \<Rightarrow> (Thrown msg, st1)
           | (Crashed, st1) \<Rightarrow> (Crashed, st1)))"

subsection \<open>An example instance\<close>

text \<open>
  Collaborators for the examples below: the allocator always answers \<open>new_id\<close>, the
  backend always answers \<open>reply\<close>, and the serializer writes one field for each
  attribute, with \<open>0\<close> for a null object id and \<open>x\<close> for any other.
  \<open>example_interface\<close> is a freshly constructed interface with metadata attached.
\<close>

definition empty_reply :: "otai_status_t \<Rightarrow> otai_status_t \<times> KeyOpFieldsValuesTuple" where
  "empty_reply status = (status, '''', '''', [])"

definition example_externals ::
  "otai_object_id_t \<Rightarrow> otai_status_t \<times> KeyOpFieldsValuesTuple \<Rightarrow> nat externals" where
  "example_externals new_id reply =
     \<lparr>OTAI_LINECARD_ATTR_CUSTOM_RANGE_START = 0x10000000,
      OTAI_REDIS_LINECARD_ATTR_FLUSH = 0x10000000,
      REDIS_KEY_VIDCOUNTER = ''VIDCOUNTER'',
      VirtualObjectIdManager_new = (\<lambda>gen. 0),
      allocateNewLinecardObjectId = (\<lambda>v. (new_id, v)),
      allocateNewObjectId = (\<lambda>t l v. (new_id, Suc v)),
      otaiLinecardIdQuery = (\<lambda>oid v. oid),
      otai_serialize_object_type =
        (\<lambda>t. if t = OTAI_OBJECT_TYPE_LINECARD then ''OTAI_OBJECT_TYPE_LINECARD''
             else ''OTAI_OBJECT_TYPE_OTHER''),
      otai_serialize_object_id = (\<lambda>oid. if oid = 0 then ''oid:0x0'' else ''oid:0x1000000000000''),
      serialize_attr_list =
        (\<lambda>t attrs countOnly.
           map (\<lambda>a. (''ATTR'',
                  case attr_value a of
                    OBJECT_LIST oids \<Rightarrow> concat (map (\<lambda>oid. if oid = 0 then ''0,'' else ''x,'') oids)
                  | OTHER_VALUE v \<Rightarrow> v)) attrs),
      OtaiAttributeList = (\<lambda>t values countOnly. []),
      transfer_attributes = (\<lambda>t n src dst countOnly. dst),
      statenum = (\<lambda>t. 0),
      serialize_counter_id_list = (\<lambda>e ids. map (\<lambda>i. (''STAT'', '''')) ids),
      statvaluetype = (\<lambda>t i. OTAI_STAT_VALUE_TYPE_UINT64),
      stoull = (\<lambda>s. if s = ''7'' then Some 7 else None),
      stod = (\<lambda>s. None),
      wait_reply = (\<lambda>history. reply),
      Linecard_new = (\<lambda>oid attrs. \<lparr>m_linecardId = oid, m_linecardNotifications = [Some 1, None, None, None]\<rparr>),
      updateNotifications = (\<lambda>attrs lc. lc),
      deserialize = (\<lambda>name body. Some \<lparr>notificationName = name, notificationBody = body\<rparr>),
      getAnyObjectId = (\<lambda>n. 0),
      processMetadata = (\<lambda>n meta. meta @ [n]),
      callbackSlot = (\<lambda>n. 0)\<rparr>"

definition example_interface :: "nat externals \<Rightarrow> nat RedisRemoteOtaiInterface" where
  "example_interface ext = setMeta (Some []) (RedisRemoteOtaiInterface_new ext)"

text \<open>The example interface after a linecard has been created on it.\<close>

definition example_linecard_interface :: "nat externals \<Rightarrow> nat RedisRemoteOtaiInterface" where
  "example_linecard_interface ext =
     snd (snd (create_oid ext OTAI_OBJECT_TYPE_LINECARD 0 [] (example_interface ext)))"

section \<open>Properties\<close>

subsection \<open>The constructed interface\<close>

text \<open>
  The constructor leaves the interface initialized, with its channel and its id manager
  in place and no linecard tracked: the pointers that the operations go through are
  set on every interface in use.
\<close>

lemma constructed_interface:
  "m_initialized (RedisRemoteOtaiInterface_new ext)"
  "m_communicationChannel (RedisRemoteOtaiInterface_new ext)
     = Some \<lparr>dbName = ''ASIC_DB'', calls = [SetBuffered False]\<rparr>"
  "m_virtualObjectIdManager (RedisRemoteOtaiInterface_new ext)
     = Some (VirtualObjectIdManager_new ext
               (Some (Some (''ASIC_DB'', 0), REDIS_KEY_VIDCOUNTER ext)))"
  "m_linecard (RedisRemoteOtaiInterface_new ext) = None"
  by (simp_all add: RedisRemoteOtaiInterface_new_def initialize_def clear_local_state_def
      SWSS_LOG_def channel_call_def RedisChannel_new_def)

subsection \<open>What the operations send\<close>

text \<open>
  With a channel in place, each of the operations on a serialized id enqueues its one
  command and then waits once; the status is the one the backend answers with.
\<close>

lemma waitForResponse_Some:
  "m_communicationChannel st = Some ch \<Longrightarrow>
   waitForResponse ext api st =
     (Returned (fst (wait_reply ext (calls ch))),
      st\<lparr>m_communicationChannel :=
           Some (channel_call (ChannelWait REDIS_ASIC_STATE_COMMAND_GETRESPONSE) ch)\<rparr>)"
  by (simp add: waitForResponse_def channel_wait_def split: prod.splits)

lemma create_key_Some:
  assumes "m_communicationChannel st = Some ch"
  shows "create_key ext object_type serializedObjectId attr_list st =
     (let entry0 = serialize_attr_list ext object_type attr_list False;
          entry = (if entry0 = [] then [(''NULL'', ''NULL'')] else entry0);
          ch1 = channel_call (ChannelSet (object_key ext object_type serializedObjectId) entry
                  REDIS_ASIC_STATE_COMMAND_CREATE) ch
      in (Returned (fst (wait_reply ext (calls ch1))),
          SWSS_LOG LOG_NOTICE ''generic create key end: %s, fields: %zu''
            ((SWSS_LOG LOG_NOTICE ''generic create key: %s, fields: %zu'' st)
               \<lparr>m_communicationChannel :=
                  Some (channel_call (ChannelWait REDIS_ASIC_STATE_COMMAND_GETRESPONSE) ch1)\<rparr>)))"
  using assms
  by (simp add: create_key_def Let_def SWSS_LOG_def waitForResponse_Some)

lemma remove_key_Some:
  assumes "m_communicationChannel st = Some ch"
  shows "remove_key ext objectType serializedObjectId st =
     (let ch1 = channel_call (ChannelDel (object_key ext objectType serializedObjectId)
                  REDIS_ASIC_STATE_COMMAND_REMOVE) ch
      in (Returned (fst (wait_reply ext (calls ch1))),
          (SWSS_LOG LOG_NOTICE ''generic remove key: %s'' st)
            \<lparr>m_communicationChannel :=
               Some (channel_call (ChannelWait REDIS_ASIC_STATE_COMMAND_GETRESPONSE) ch1)\<rparr>))"
  using assms
  by (simp add: remove_key_def Let_def SWSS_LOG_def waitForResponse_Some)

lemma set_key_Some:
  assumes "m_communicationChannel st = Some ch"
  shows "set_key ext objectType serializedObjectId (Some a) st =
     (let ch1 = channel_call (ChannelSet (object_key ext objectType serializedObjectId)
                  (serialize_attr_list ext objectType [a] False) REDIS_ASIC_STATE_COMMAND_SET) ch
      in (Returned (fst (wait_reply ext (calls ch1))),
          (SWSS_LOG LOG_DEBUG ''generic set key: %s, fields: %zu'' st)
            \<lparr>m_communicationChannel :=
               Some (channel_call (ChannelWait REDIS_ASIC_STATE_COMMAND_GETRESPONSE) ch1)\<rparr>))"
  using assms
  by (simp add: set_key_def Let_def SWSS_LOG_def waitForResponse_Some)

lemma waitForGetResponse_empty:
  assumes "m_communicationChannel st = Some ch"
    and "wait_reply ext (calls ch) = (status, kco)"
    and "status = OTAI_STATUS_SUCCESS \<or> status = OTAI_STATUS_BUFFER_OVERFLOW"
    and "kfvFieldsValues kco = []"
  shows "\<exists>msg. fst (waitForGetResponse ext objectType attr_list st) = Thrown msg"
  using assms
  by (auto simp add: waitForGetResponse_def channel_wait_def Let_def)

lemma waitForGetResponse_calls:
  assumes "m_communicationChannel st = Some ch"
  shows "m_communicationChannel (snd (snd (waitForGetResponse ext objectType attr_list st)))
     = Some (channel_call (ChannelWait REDIS_ASIC_STATE_COMMAND_GETRESPONSE) ch)"
  using assms
  by (simp add: waitForGetResponse_def channel_wait_def Let_def split: prod.splits)

lemma waitForGetStatsResponse_mismatch:
  assumes "m_communicationChannel st = Some ch"
    and "wait_reply ext (calls ch) = (OTAI_STATUS_SUCCESS, kco)"
    and "length (kfvFieldsValues kco) \<noteq> length counter_ids"
  shows "waitForGetStatsResponse ext object_type counter_ids counters st
     = (Thrown ''wrong number of counters, got %zu, expected %u'', counters,
        st\<lparr>m_communicationChannel :=
             Some (channel_call (ChannelWait REDIS_ASIC_STATE_COMMAND_GETRESPONSE) ch)\<rparr>)"
  using assms
  by (simp add: waitForGetStatsResponse_def channel_wait_def Let_def)

lemma remove_key_keeps_manager:
  "m_virtualObjectIdManager (snd (remove_key ext objectType serializedObjectId st))
     = m_virtualObjectIdManager st"
proof (cases "m_communicationChannel st")
  case None
  then show ?thesis by (simp add: remove_key_def Let_def SWSS_LOG_def)
next
  case (Some ch)
  then show ?thesis by (simp add: remove_key_Some Let_def SWSS_LOG_def)
qed

lemma remove_oid_keeps_manager:
  "m_virtualObjectIdManager (snd (remove_oid ext objectType objectId st))
     = m_virtualObjectIdManager st"
proof (cases "remove_key ext objectType (otai_serialize_object_id ext objectId) st")
  case (Pair status st1)
  with remove_key_keeps_manager [of ext objectType "otai_serialize_object_id ext objectId" st]
  show ?thesis by (simp add: remove_oid_def SWSS_LOG_def)
qed

lemma executeCallback_no_notifications:
  "executeCallback ext notification no_notifications = []"
proof -
  have "\<forall>i < 4. [None, None, None, None :: callback_ptr option] ! i = None"
    by (simp add: nth_Cons' )
  then show ?thesis
    by (simp add: executeCallback_def no_notifications_def)
qed

lemma syncProcessNotification_no_linecard:
  assumes "m_linecard st = None" and "m_virtualObjectIdManager st = Some v"
  shows "fst (syncProcessNotification ext notification st) = Returned no_notifications"
    and "m_linecard (snd (syncProcessNotification ext notification st)) = None"
  using assms
  by (simp_all add: syncProcessNotification_def no_notifications_def Let_def SWSS_LOG_def
      split: option.splits)

text \<open>After \<^verbatim>\<open>clearOidValues\<close> an object id list holds null ids only.\<close>

lemma clearOidValues_null:
  assumes "a \<in> set (clearOidValues objectType attr_list)"
    and "attr_value a = OBJECT_LIST oids"
    and "oid \<in> set oids"
  shows "oid = OTAI_NULL_OBJECT_ID"
proof -
  from assms(1) obtain b where b: "b \<in> set attr_list"
    and a: "a = b\<lparr>attr_value := clearOidValue (attr_value b)\<rparr>"
    by (auto simp add: clearOidValues_def)
  from a assms(2) have "clearOidValue (attr_value b) = OBJECT_LIST oids" by simp
  with assms(3) show ?thesis
    by (cases "attr_value b") auto
qed

text \<open>The example collaborators, field by field, and the example interfaces.\<close>

lemma example_externals_simps:
  "OTAI_LINECARD_ATTR_CUSTOM_RANGE_START (example_externals new_id reply) = 0x10000000"
  "OTAI_REDIS_LINECARD_ATTR_FLUSH (example_externals new_id reply) = 0x10000000"
  "allocateNewLinecardObjectId (example_externals new_id reply) v = (new_id, v)"
  "allocateNewObjectId (example_externals new_id reply) t l v = (new_id, Suc v)"
  "otaiLinecardIdQuery (example_externals new_id reply) oid v = oid"
  "otai_serialize_object_type (example_externals new_id reply) t
     = (if t = OTAI_OBJECT_TYPE_LINECARD then ''OTAI_OBJECT_TYPE_LINECARD''
        else ''OTAI_OBJECT_TYPE_OTHER'')"
  "otai_serialize_object_id (example_externals new_id reply) oid
     = (if oid = 0 then ''oid:0x0'' else ''oid:0x1000000000000'')"
  "serialize_attr_list (example_externals new_id reply) t attrs countOnly
     = map (\<lambda>a. (''ATTR'',
              case attr_value a of
                OBJECT_LIST oids \<Rightarrow> concat (map (\<lambda>oid. if oid = 0 then ''0,'' else ''x,'') oids)
              | OTHER_VALUE v \<Rightarrow> v)) attrs"
  "statenum (example_externals new_id reply) t = 0"
  "serialize_counter_id_list (example_externals new_id reply) e ids
     = map (\<lambda>i. (''STAT'', [])) ids"
  "statvaluetype (example_externals new_id reply) t i = OTAI_STAT_VALUE_TYPE_UINT64"
  "stoull (example_externals new_id reply) s = (if s = ''7'' then Some 7 else None)"
  "wait_reply (example_externals new_id reply) history = reply"
  "Linecard_new (example_externals new_id reply) oid attrs
     = \<lparr>m_linecardId = oid, m_linecardNotifications = [Some 1, None, None, None]\<rparr>"
  "updateNotifications (example_externals new_id reply) attrs lc = lc"
  "deserialize (example_externals new_id reply) name body
     = Some \<lparr>notificationName = name, notificationBody = body\<rparr>"
  "getAnyObjectId (example_externals new_id reply) n = 0"
  "processMetadata (example_externals new_id reply) n meta = meta @ [n]"
  "callbackSlot (example_externals new_id reply) n = 0"
  by (simp_all add: example_externals_def)

lemma empty_reply_simps:
  "fst (empty_reply status) = status"
  "kfvFieldsValues (snd (empty_reply status)) = []"
  by (simp_all add: empty_reply_def kfvFieldsValues_def)

lemma example_interface_simps:
  "m_communicationChannel (example_interface ext)
     = Some \<lparr>dbName = ''ASIC_DB'', calls = [SetBuffered False]\<rparr>"
  "m_virtualObjectIdManager (example_interface (example_externals new_id reply)) = Some 0"
  "m_linecard (example_interface ext) = None"
  "m_meta (example_interface ext) = Some []"
  "m_initialized (example_interface ext)"
  by (simp_all add: example_interface_def setMeta_def RedisRemoteOtaiInterface_new_def
      initialize_def clear_local_state_def SWSS_LOG_def example_externals_def
      channel_call_def RedisChannel_new_def)

lemma example_linecard_interface_simps:
  "m_communicationChannel (example_linecard_interface (example_externals 5 (empty_reply OTAI_STATUS_SUCCESS)))
     = Some \<lparr>dbName = ''ASIC_DB'',
             calls = [SetBuffered False,
                      ChannelSet ''OTAI_OBJECT_TYPE_LINECARD:oid:0x1000000000000'' [(''NULL'', ''NULL'')]
                        REDIS_ASIC_STATE_COMMAND_CREATE,
                      ChannelWait REDIS_ASIC_STATE_COMMAND_GETRESPONSE]\<rparr>"
  "m_virtualObjectIdManager (example_linecard_interface (example_externals 5 (empty_reply OTAI_STATUS_SUCCESS)))
     = Some 0"
  "m_linecard (example_linecard_interface (example_externals 5 (empty_reply OTAI_STATUS_SUCCESS)))
     = Some \<lparr>m_linecardId = 5, m_linecardNotifications = [Some 1, None, None, None]\<rparr>"
  "m_meta (example_linecard_interface (example_externals 5 (empty_reply OTAI_STATUS_SUCCESS)))
     = Some []"
  "m_initialized (example_linecard_interface (example_externals 5 (empty_reply OTAI_STATUS_SUCCESS)))"
  by (simp_all add: example_linecard_interface_def create_oid_def create_allocated_def
      create_key_Some example_interface_simps example_externals_simps empty_reply_simps
      Let_def SWSS_LOG_def channel_call_def object_key_def OTAI_NULL_OBJECT_ID_def)

subsection \<open>Failed allocation in create\<close>

text \<open>
  Claim C1, as the code has it. When the virtual object id manager answers with the null
  object id, \<^verbatim>\<open>create\<close> returns before it touches the channel: no CREATE command
  and no wait. For the linecard the status is \<open>OTAI_STATUS_FAILURE\<close> (the test right
  after \<^verbatim>\<open>allocateNewLinecardObjectId\<close>), for every other object type it is
  \<open>OTAI_STATUS_INSUFFICIENT_RESOURCES\<close>.
\<close>

theorem create_allocation_failure:
  assumes "m_virtualObjectIdManager st = Some v"
  shows "(objectType = OTAI_OBJECT_TYPE_LINECARD \<and>
            fst (allocateNewLinecardObjectId ext v) = OTAI_NULL_OBJECT_ID \<longrightarrow>
          fst (create_oid ext objectType linecardId attr_list st) = Returned OTAI_STATUS_FAILURE \<and>
          m_communicationChannel (snd (snd (create_oid ext objectType linecardId attr_list st)))
            = m_communicationChannel st)
       \<and> (objectType \<noteq> OTAI_OBJECT_TYPE_LINECARD \<and>
            fst (allocateNewObjectId ext objectType linecardId v) = OTAI_NULL_OBJECT_ID \<longrightarrow>
          fst (create_oid ext objectType linecardId attr_list st)
            = Returned OTAI_STATUS_INSUFFICIENT_RESOURCES \<and>
          m_communicationChannel (snd (snd (create_oid ext objectType linecardId attr_list st)))
            = m_communicationChannel st)"
  using assms
  by (auto simp add: create_oid_def create_allocated_def SWSS_LOG_def split: prod.splits)

text \<open>
  The theorem at work: a linecard and an object of another type, both with an
  allocator that answers with the null id.
\<close>

theorem create_allocation_failure_witness:
  "m_virtualObjectIdManager (example_interface (example_externals 0 (empty_reply OTAI_STATUS_SUCCESS))) = Some 0
   \<and> fst (allocateNewLinecardObjectId (example_externals 0 (empty_reply OTAI_STATUS_SUCCESS)) 0) = OTAI_NULL_OBJECT_ID
   \<and> fst (create_oid (example_externals 0 (empty_reply OTAI_STATUS_SUCCESS)) OTAI_OBJECT_TYPE_LINECARD 0 []
        (example_interface (example_externals 0 (empty_reply OTAI_STATUS_SUCCESS))))
       = Returned OTAI_STATUS_FAILURE
   \<and> OTAI_OBJECT_TYPE_OTHER 2 \<noteq> OTAI_OBJECT_TYPE_LINECARD
   \<and> fst (allocateNewObjectId (example_externals 0 (empty_reply OTAI_STATUS_SUCCESS))
        (OTAI_OBJECT_TYPE_OTHER 2) 1 0) = OTAI_NULL_OBJECT_ID
   \<and> fst (create_oid (example_externals 0 (empty_reply OTAI_STATUS_SUCCESS)) (OTAI_OBJECT_TYPE_OTHER 2) 1 []
        (example_interface (example_externals 0 (empty_reply OTAI_STATUS_SUCCESS))))
       = Returned OTAI_STATUS_INSUFFICIENT_RESOURCES
   \<and> m_communicationChannel
        (snd (snd (create_oid (example_externals 0 (empty_reply OTAI_STATUS_SUCCESS)) (OTAI_OBJECT_TYPE_OTHER 2) 1 []
           (example_interface (example_externals 0 (empty_reply OTAI_STATUS_SUCCESS))))))
       = m_communicationChannel (example_interface (example_externals 0 (empty_reply OTAI_STATUS_SUCCESS)))"
proof -
  let ?ext = "example_externals 0 (empty_reply OTAI_STATUS_SUCCESS)"
  have mgr: "m_virtualObjectIdManager (example_interface ?ext) = Some 0"
    by (simp add: example_interface_def setMeta_def RedisRemoteOtaiInterface_new_def
        initialize_def clear_local_state_def SWSS_LOG_def example_externals_def)
  have a1: "fst (allocateNewLinecardObjectId ?ext 0) = OTAI_NULL_OBJECT_ID"
    by (simp add: example_externals_def OTAI_NULL_OBJECT_ID_def)
  have a2: "fst (allocateNewObjectId ?ext (OTAI_OBJECT_TYPE_OTHER 2) 1 0) = OTAI_NULL_OBJECT_ID"
    by (simp add: example_externals_def OTAI_NULL_OBJECT_ID_def)
  from create_allocation_failure [OF mgr, of OTAI_OBJECT_TYPE_LINECARD ?ext 0 "[]"]
    create_allocation_failure [OF mgr, of "OTAI_OBJECT_TYPE_OTHER 2" ?ext 1 "[]"] mgr a1 a2
  show ?thesis by simp
qed

text \<open>
  Claim C1 as stated asks for \<open>OTAI_STATUS_INSUFFICIENT_RESOURCES\<close> for the linecard
  too. On a fresh interface whose allocator answers with the null id, creating a
  linecard returns \<open>OTAI_STATUS_FAILURE\<close>.
\<close>

theorem create_linecard_allocation_failure_counterexample:
  "m_virtualObjectIdManager (example_interface (example_externals 0 (empty_reply OTAI_STATUS_SUCCESS))) = Some 0
   \<and> fst (allocateNewLinecardObjectId (example_externals 0 (empty_reply OTAI_STATUS_SUCCESS)) 0) = OTAI_NULL_OBJECT_ID
   \<and> fst (create_oid (example_externals 0 (empty_reply OTAI_STATUS_SUCCESS)) OTAI_OBJECT_TYPE_LINECARD 0 []
        (example_interface (example_externals 0 (empty_reply OTAI_STATUS_SUCCESS))))
       = Returned OTAI_STATUS_FAILURE
   \<and> fst (create_oid (example_externals 0 (empty_reply OTAI_STATUS_SUCCESS)) OTAI_OBJECT_TYPE_LINECARD 0 []
        (example_interface (example_externals 0 (empty_reply OTAI_STATUS_SUCCESS))))
       \<noteq> Returned OTAI_STATUS_INSUFFICIENT_RESOURCES"
  by (simp add: example_interface_def setMeta_def RedisRemoteOtaiInterface_new_def
      initialize_def clear_local_state_def SWSS_LOG_def example_externals_def
      create_oid_def OTAI_NULL_OBJECT_ID_def)

subsection \<open>The sentinel field of create\<close>

text \<open>
  Claim C7. When the serializer gives no field for the attribute list, the CREATE
  command that \<^verbatim>\<open>create\<close> enqueues carries exactly the one field
  \<^verbatim>\<open>("NULL", "NULL")\<close>; and whatever the attribute list and the object type, the
  CREATE command it enqueues never has an empty field list. The command is followed by
  the one wait. The first two parts are about the overload that takes the serialized
  id, the third about the one that allocates the id, when the allocation gives an id
  that is not null.
\<close>

theorem create_never_writes_zero_fields:
  assumes "m_communicationChannel st = Some ch"
  shows "(serialize_attr_list ext object_type attr_list False = [] \<longrightarrow>
           map_option calls
             (m_communicationChannel (snd (create_key ext object_type serializedObjectId attr_list st)))
           = Some (calls ch @
               [ChannelSet (object_key ext object_type serializedObjectId) [(''NULL'', ''NULL'')]
                  REDIS_ASIC_STATE_COMMAND_CREATE,
                ChannelWait REDIS_ASIC_STATE_COMMAND_GETRESPONSE]))
       \<and> (\<exists>entry. entry \<noteq> [] \<and>
           map_option calls
             (m_communicationChannel (snd (create_key ext object_type serializedObjectId attr_list st)))
           = Some (calls ch @
               [ChannelSet (object_key ext object_type serializedObjectId) entry
                  REDIS_ASIC_STATE_COMMAND_CREATE,
                ChannelWait REDIS_ASIC_STATE_COMMAND_GETRESPONSE]))
       \<and> (m_virtualObjectIdManager st = Some v
            \<and> (if object_type = OTAI_OBJECT_TYPE_LINECARD
                then allocateNewLinecardObjectId ext v
                else allocateNewObjectId ext object_type linecardId v) = (objectId, v')
            \<and> objectId \<noteq> OTAI_NULL_OBJECT_ID \<longrightarrow>
           map_option calls
             (m_communicationChannel (snd (snd (create_oid ext object_type linecardId attr_list st))))
           = Some (calls ch @
               [ChannelSet (object_key ext object_type (otai_serialize_object_id ext objectId))
                  (if serialize_attr_list ext object_type attr_list False = []
                   then [(''NULL'', ''NULL'')]
                   else serialize_attr_list ext object_type attr_list False)
                  REDIS_ASIC_STATE_COMMAND_CREATE,
                ChannelWait REDIS_ASIC_STATE_COMMAND_GETRESPONSE]))"
proof -
  have key: "map_option calls
      (m_communicationChannel (snd (create_key ext object_type sid attr_list s)))
    = Some (calls ch @
        [ChannelSet (object_key ext object_type sid)
           (if serialize_attr_list ext object_type attr_list False = []
            then [(''NULL'', ''NULL'')]
            else serialize_attr_list ext object_type attr_list False)
           REDIS_ASIC_STATE_COMMAND_CREATE,
         ChannelWait REDIS_ASIC_STATE_COMMAND_GETRESPONSE])"
    if "m_communicationChannel s = Some ch" for s sid
    using that by (simp add: create_key_Some Let_def SWSS_LOG_def channel_call_def)
  have oid: "map_option calls
      (m_communicationChannel (snd (snd (create_oid ext object_type linecardId attr_list st))))
    = map_option calls
      (m_communicationChannel (snd (create_key ext object_type
         (otai_serialize_object_id ext objectId) attr_list
         (st\<lparr>m_virtualObjectIdManager := Some v'\<rparr>))))"
    if "m_virtualObjectIdManager st = Some v"
      and "(if object_type = OTAI_OBJECT_TYPE_LINECARD
            then allocateNewLinecardObjectId ext v
            else allocateNewObjectId ext object_type linecardId v) = (objectId, v')"
      and "objectId \<noteq> OTAI_NULL_OBJECT_ID"
    using that
    by (cases "create_key ext object_type (otai_serialize_object_id ext objectId) attr_list
         (st\<lparr>m_virtualObjectIdManager := Some v'\<rparr>)")
      (auto simp add: create_oid_def create_allocated_def Let_def split: if_splits)
  have ch': "m_communicationChannel (st\<lparr>m_virtualObjectIdManager := Some v'\<rparr>) = Some ch"
    using assms by simp
  show ?thesis
    using key [OF assms, of serializedObjectId] oid key [OF ch', of "otai_serialize_object_id ext objectId"]
    by auto
qed

text \<open>
  The theorem at work: a linecard and an object of another type, both created without
  attributes on the fresh example interface.
\<close>

theorem create_never_writes_zero_fields_witness:
  "m_communicationChannel (example_interface (example_externals 5 (empty_reply OTAI_STATUS_SUCCESS)))
     = Some \<lparr>dbName = ''ASIC_DB'', calls = [SetBuffered False]\<rparr>
   \<and> serialize_attr_list (example_externals 5 (empty_reply OTAI_STATUS_SUCCESS))
        OTAI_OBJECT_TYPE_LINECARD [] False = []
   \<and> map_option calls (m_communicationChannel (snd
        (create_key (example_externals 5 (empty_reply OTAI_STATUS_SUCCESS))
           OTAI_OBJECT_TYPE_LINECARD ''oid:0x1000000000000'' []
           (example_interface (example_externals 5 (empty_reply OTAI_STATUS_SUCCESS))))))
     = Some [SetBuffered False,
             ChannelSet ''OTAI_OBJECT_TYPE_LINECARD:oid:0x1000000000000'' [(''NULL'', ''NULL'')]
               REDIS_ASIC_STATE_COMMAND_CREATE,
             ChannelWait REDIS_ASIC_STATE_COMMAND_GETRESPONSE]
   \<and> m_virtualObjectIdManager
        (example_interface (example_externals 5 (empty_reply OTAI_STATUS_SUCCESS))) = Some 0
   \<and> allocateNewObjectId (example_externals 5 (empty_reply OTAI_STATUS_SUCCESS))
        (OTAI_OBJECT_TYPE_OTHER 2) 5 0 = (5, 1)
   \<and> (5 :: otai_object_id_t) \<noteq> OTAI_NULL_OBJECT_ID
   \<and> map_option calls (m_communicationChannel (snd (snd
        (create_oid (example_externals 5 (empty_reply OTAI_STATUS_SUCCESS))
           (OTAI_OBJECT_TYPE_OTHER 2) 5 []
           (example_interface (example_externals 5 (empty_reply OTAI_STATUS_SUCCESS)))))))
     = Some [SetBuffered False,
             ChannelSet ''OTAI_OBJECT_TYPE_OTHER:oid:0x1000000000000'' [(''NULL'', ''NULL'')]
               REDIS_ASIC_STATE_COMMAND_CREATE,
             ChannelWait REDIS_ASIC_STATE_COMMAND_GETRESPONSE]"
proof -
  let ?ext = "example_externals 5 (empty_reply OTAI_STATUS_SUCCESS)"
  let ?ch = "\<lparr>dbName = ''ASIC_DB'', calls = [SetBuffered False]\<rparr>"
  have ch: "m_communicationChannel (example_interface ?ext) = Some ?ch"
    by (rule example_interface_simps)
  have mgr: "m_virtualObjectIdManager (example_interface ?ext) = Some 0"
    by (rule example_interface_simps)
  have ser: "serialize_attr_list ?ext t [] False = []" for t
    by (simp add: example_externals_simps)
  have alloc: "allocateNewObjectId ?ext (OTAI_OBJECT_TYPE_OTHER 2) 5 0 = (5, 1)"
    by (simp add: example_externals_simps)
  have nonnull: "(5 :: otai_object_id_t) \<noteq> OTAI_NULL_OBJECT_ID"
    by (simp add: OTAI_NULL_OBJECT_ID_def)
  have key: "object_key ?ext OTAI_OBJECT_TYPE_LINECARD ''oid:0x1000000000000''
     = ''OTAI_OBJECT_TYPE_LINECARD:oid:0x1000000000000''"
    "object_key ?ext (OTAI_OBJECT_TYPE_OTHER 2) (otai_serialize_object_id ?ext 5)
     = ''OTAI_OBJECT_TYPE_OTHER:oid:0x1000000000000''"
    by (simp_all add: object_key_def example_externals_simps)
  from create_never_writes_zero_fields [OF ch, of ?ext OTAI_OBJECT_TYPE_LINECARD "[]"
      "''oid:0x1000000000000''"] ser key ch
  have first: "map_option calls (m_communicationChannel (snd
        (create_key ?ext OTAI_OBJECT_TYPE_LINECARD ''oid:0x1000000000000'' []
           (example_interface ?ext))))
     = Some [SetBuffered False,
             ChannelSet ''OTAI_OBJECT_TYPE_LINECARD:oid:0x1000000000000'' [(''NULL'', ''NULL'')]
               REDIS_ASIC_STATE_COMMAND_CREATE,
             ChannelWait REDIS_ASIC_STATE_COMMAND_GETRESPONSE]"
    by simp
  from create_never_writes_zero_fields [OF ch, of ?ext "OTAI_OBJECT_TYPE_OTHER 2" "[]" _
      0 5 5 1] ser key mgr alloc nonnull
  have second: "map_option calls (m_communicationChannel (snd (snd
        (create_oid ?ext (OTAI_OBJECT_TYPE_OTHER 2) 5 [] (example_interface ?ext)))))
     = Some [SetBuffered False,
             ChannelSet ''OTAI_OBJECT_TYPE_OTHER:oid:0x1000000000000'' [(''NULL'', ''NULL'')]
               REDIS_ASIC_STATE_COMMAND_CREATE,
             ChannelWait REDIS_ASIC_STATE_COMMAND_GETRESPONSE]"
    by simp
  from ch ser [of OTAI_OBJECT_TYPE_LINECARD] first mgr alloc nonnull second show ?thesis
    by blast
qed

subsection \<open>An empty response to get\<close>

text \<open>
  Claim C2. When the wait of a \<^verbatim>\<open>get\<close> is answered with the status
  \<open>OTAI_STATUS_SUCCESS\<close> or \<open>OTAI_STATUS_BUFFER_OVERFLOW\<close> and no field, the
  call throws; it does not return a status, so in particular it never returns success
  with an empty payload. The answer is the one the backend gives to the GET command
  that the call has enqueued after the calls made so far.
\<close>

theorem get_empty_payload_throws:
  assumes "m_communicationChannel st = Some ch"
    and "wait_reply ext
           (calls ch @
            [ChannelSet (object_key ext objectType (otai_serialize_object_id ext objectId))
               (serialize_attr_list ext objectType (clearOidValues objectType attr_list) False)
               REDIS_ASIC_STATE_COMMAND_GET])
         = (status, kco)"
    and "status = OTAI_STATUS_SUCCESS \<or> status = OTAI_STATUS_BUFFER_OVERFLOW"
    and "kfvFieldsValues kco = []"
  shows "\<exists>msg. fst (get_oid ext objectType objectId attr_list st) = Thrown msg"
proof -
  let ?cmd = "ChannelSet (object_key ext objectType (otai_serialize_object_id ext objectId))
               (serialize_attr_list ext objectType (clearOidValues objectType attr_list) False)
               REDIS_ASIC_STATE_COMMAND_GET"
  let ?st1 = "(SWSS_LOG LOG_DEBUG ''generic get key: %s, fields: %lu'' st)
                \<lparr>m_communicationChannel := Some (channel_call ?cmd ch)\<rparr>"
  have unfold: "get_oid ext objectType objectId attr_list st
      = waitForGetResponse ext objectType (clearOidValues objectType attr_list) ?st1"
    using assms(1) by (simp add: get_oid_def get_key_def Let_def SWSS_LOG_def)
  have ch1: "m_communicationChannel ?st1 = Some (channel_call ?cmd ch)"
    by simp
  have reply: "wait_reply ext (calls (channel_call ?cmd ch)) = (status, kco)"
    using assms(2) by (simp add: channel_call_def)
  show ?thesis
    unfolding unfold
    by (rule waitForGetResponse_empty [OF ch1 reply assms(3) assms(4)])
qed

text \<open>
  The theorem at work: a backend that answers success with no field.
\<close>

theorem get_empty_payload_throws_witness:
  "m_communicationChannel (example_interface (example_externals 5 (empty_reply OTAI_STATUS_SUCCESS)))
     = Some \<lparr>dbName = ''ASIC_DB'', calls = [SetBuffered False]\<rparr>
   \<and> wait_reply (example_externals 5 (empty_reply OTAI_STATUS_SUCCESS))
        ([SetBuffered False] @
         [ChannelSet (object_key (example_externals 5 (empty_reply OTAI_STATUS_SUCCESS))
              OTAI_OBJECT_TYPE_LINECARD
              (otai_serialize_object_id (example_externals 5 (empty_reply OTAI_STATUS_SUCCESS)) 5))
            (serialize_attr_list (example_externals 5 (empty_reply OTAI_STATUS_SUCCESS))
               OTAI_OBJECT_TYPE_LINECARD
               (clearOidValues OTAI_OBJECT_TYPE_LINECARD
                  [\<lparr>attr_id = 1, attr_value = OTHER_VALUE ''''\<rparr>]) False)
            REDIS_ASIC_STATE_COMMAND_GET])
       = (OTAI_STATUS_SUCCESS, '''', '''', [])
   \<and> kfvFieldsValues ('''', '''', []) = []
   \<and> fst (get_oid (example_externals 5 (empty_reply OTAI_STATUS_SUCCESS))
        OTAI_OBJECT_TYPE_LINECARD 5 [\<lparr>attr_id = 1, attr_value = OTHER_VALUE ''''\<rparr>]
        (example_interface (example_externals 5 (empty_reply OTAI_STATUS_SUCCESS))))
       = Thrown ''logic error states = success, get response returned 0 values!, send api response or sync/async issue?''"
proof -
  let ?ext = "example_externals 5 (empty_reply OTAI_STATUS_SUCCESS)"
  let ?attrs = "[\<lparr>attr_id = 1, attr_value = OTHER_VALUE ''''\<rparr>]"
  let ?ch = "\<lparr>dbName = ''ASIC_DB'', calls = [SetBuffered False]\<rparr>"
  have ch: "m_communicationChannel (example_interface ?ext) = Some ?ch"
    by (rule example_interface_simps)
  have reply: "wait_reply ?ext
        (calls ?ch @
         [ChannelSet (object_key ?ext OTAI_OBJECT_TYPE_LINECARD (otai_serialize_object_id ?ext 5))
            (serialize_attr_list ?ext OTAI_OBJECT_TYPE_LINECARD
               (clearOidValues OTAI_OBJECT_TYPE_LINECARD ?attrs) False)
            REDIS_ASIC_STATE_COMMAND_GET])
       = (OTAI_STATUS_SUCCESS, '''', '''', [])"
    by (simp add: example_externals_def empty_reply_def)
  have payload: "kfvFieldsValues ('''', '''', []) = []"
    by (simp add: kfvFieldsValues_def)
  have thrown: "\<exists>msg. fst (get_oid ?ext OTAI_OBJECT_TYPE_LINECARD 5 ?attrs (example_interface ?ext))
       = Thrown msg"
    by (rule get_empty_payload_throws [OF ch reply _ payload]) simp
  have eval: "fst (get_oid ?ext OTAI_OBJECT_TYPE_LINECARD 5 ?attrs (example_interface ?ext))
       = Thrown ''logic error states = success, get response returned 0 values!, send api response or sync/async issue?''"
    using ch
    by (simp add: get_oid_def get_key_def Let_def SWSS_LOG_def waitForGetResponse_def
        channel_wait_def channel_call_def example_externals_def empty_reply_def kfvFieldsValues_def)
  from thrown eval ch reply payload show ?thesis by simp
qed

subsection \<open>The extension attributes of the linecard\<close>

text \<open>
  Claim C3. A \<^verbatim>\<open>set\<close> on the linecard whose attribute id is at or above
  \<^verbatim>\<open>OTAI_LINECARD_ATTR_CUSTOM_RANGE_START\<close> enqueues no command and waits for
  nothing, whether or not a linecard is tracked: for the id
  \<^verbatim>\<open>OTAI_REDIS_LINECARD_ATTR_FLUSH\<close> the only call on the channel is
  \<^verbatim>\<open>flush\<close> and the status is success, for any other such id only an error is
  logged and the status is failure. On any other object type the attribute is never an
  extension attribute, whatever its id: \<^verbatim>\<open>set\<close> is the SET round trip.
\<close>

theorem set_extension_attribute:
  "(objectType = OTAI_OBJECT_TYPE_LINECARD
      \<and> OTAI_LINECARD_ATTR_CUSTOM_RANGE_START ext \<le> attr_id a
      \<and> attr_id a = OTAI_REDIS_LINECARD_ATTR_FLUSH ext
      \<and> m_communicationChannel st = Some ch \<longrightarrow>
    set_oid ext objectType objectId (Some a) st
      = (Returned OTAI_STATUS_SUCCESS,
         st\<lparr>m_communicationChannel := Some (ch\<lparr>calls := calls ch @ [ChannelFlush]\<rparr>)\<rparr>))
   \<and> (objectType = OTAI_OBJECT_TYPE_LINECARD
      \<and> OTAI_LINECARD_ATTR_CUSTOM_RANGE_START ext \<le> attr_id a
      \<and> attr_id a \<noteq> OTAI_REDIS_LINECARD_ATTR_FLUSH ext \<longrightarrow>
    set_oid ext objectType objectId (Some a) st
      = (Returned OTAI_STATUS_FAILURE,
         st\<lparr>swss_log := swss_log st @ [(LOG_ERROR, ''unknown redis extension attribute: %d'')]\<rparr>))
   \<and> (objectType \<noteq> OTAI_OBJECT_TYPE_LINECARD \<longrightarrow>
    \<not> isRedisAttribute ext objectType attr
      \<and> set_oid ext objectType objectId attr st
          = set_key ext objectType (otai_serialize_object_id ext objectId) attr st)"
  by (auto simp add: set_oid_def isRedisAttribute_def setRedisExtensionAttribute_def
      SWSS_LOG_def channel_call_def not_less split: option.splits prod.splits)

text \<open>
  The theorem at work: the flush attribute and an unknown extension attribute on the
  linecard, and the flush id on another object type.
\<close>

theorem set_extension_attribute_witness:
  "OTAI_LINECARD_ATTR_CUSTOM_RANGE_START (example_externals 5 (empty_reply OTAI_STATUS_SUCCESS))
     \<le> attr_id \<lparr>attr_id = 0x10000000, attr_value = OTHER_VALUE ''''\<rparr>
   \<and> attr_id \<lparr>attr_id = 0x10000000, attr_value = OTHER_VALUE ''''\<rparr>
     = OTAI_REDIS_LINECARD_ATTR_FLUSH (example_externals 5 (empty_reply OTAI_STATUS_SUCCESS))
   \<and> m_communicationChannel (example_interface (example_externals 5 (empty_reply OTAI_STATUS_SUCCESS)))
     = Some \<lparr>dbName = ''ASIC_DB'', calls = [SetBuffered False]\<rparr>
   \<and> set_oid (example_externals 5 (empty_reply OTAI_STATUS_SUCCESS)) OTAI_OBJECT_TYPE_LINECARD 5
        (Some \<lparr>attr_id = 0x10000000, attr_value = OTHER_VALUE ''''\<rparr>)
        (example_interface (example_externals 5 (empty_reply OTAI_STATUS_SUCCESS)))
     = (Returned OTAI_STATUS_SUCCESS,
        (example_interface (example_externals 5 (empty_reply OTAI_STATUS_SUCCESS)))
          \<lparr>m_communicationChannel :=
             Some \<lparr>dbName = ''ASIC_DB'', calls = [SetBuffered False, ChannelFlush]\<rparr>\<rparr>)
   \<and> OTAI_LINECARD_ATTR_CUSTOM_RANGE_START (example_externals 5 (empty_reply OTAI_STATUS_SUCCESS))
     \<le> attr_id \<lparr>attr_id = 0x10000001, attr_value = OTHER_VALUE ''''\<rparr>
   \<and> attr_id \<lparr>attr_id = 0x10000001, attr_value = OTHER_VALUE ''''\<rparr>
     \<noteq> OTAI_REDIS_LINECARD_ATTR_FLUSH (example_externals 5 (empty_reply OTAI_STATUS_SUCCESS))
   \<and> fst (set_oid (example_externals 5 (empty_reply OTAI_STATUS_SUCCESS)) OTAI_OBJECT_TYPE_LINECARD 5
        (Some \<lparr>attr_id = 0x10000001, attr_value = OTHER_VALUE ''''\<rparr>)
        (example_interface (example_externals 5 (empty_reply OTAI_STATUS_SUCCESS))))
     = Returned OTAI_STATUS_FAILURE
   \<and> OTAI_OBJECT_TYPE_OTHER 2 \<noteq> OTAI_OBJECT_TYPE_LINECARD
   \<and> \<not> isRedisAttribute (example_externals 5 (empty_reply OTAI_STATUS_SUCCESS))
        (OTAI_OBJECT_TYPE_OTHER 2) (Some \<lparr>attr_id = 0x10000000, attr_value = OTHER_VALUE ''''\<rparr>)"
proof -
  let ?ext = "example_externals 5 (empty_reply OTAI_STATUS_SUCCESS)"
  let ?ch = "\<lparr>dbName = ''ASIC_DB'', calls = [SetBuffered False]\<rparr>"
  let ?flush = "\<lparr>attr_id = 0x10000000, attr_value = OTHER_VALUE ''''\<rparr>"
  let ?other = "\<lparr>attr_id = 0x10000001, attr_value = OTHER_VALUE ''''\<rparr>"
  have ch: "m_communicationChannel (example_interface ?ext) = Some ?ch"
    by (rule example_interface_simps)
  have range: "OTAI_LINECARD_ATTR_CUSTOM_RANGE_START ?ext = 0x10000000"
    "OTAI_REDIS_LINECARD_ATTR_FLUSH ?ext = 0x10000000"
    by (simp_all add: example_externals_def)
  from set_extension_attribute [of OTAI_OBJECT_TYPE_LINECARD ?ext ?flush
      "example_interface ?ext" ?ch 5]
    set_extension_attribute [of OTAI_OBJECT_TYPE_LINECARD ?ext ?other
      "example_interface ?ext" ?ch 5]
    set_extension_attribute [of "OTAI_OBJECT_TYPE_OTHER 2" ?ext ?flush
      "example_interface ?ext" ?ch 5 "Some ?flush"]
    ch range
  show ?thesis by simp
qed

subsection \<open>A wrong number of counters\<close>

text \<open>
  Claim C4. When the wait of a \<^verbatim>\<open>getStats\<close> is answered with the status
  \<open>OTAI_STATUS_SUCCESS\<close> and the number of fields differs from the number of
  counters asked for, the call throws and the caller's counters are as they were:
  nothing is decoded.
\<close>

theorem getStats_count_mismatch_throws:
  assumes "m_communicationChannel st = Some ch"
    and "wait_reply ext
           (calls ch @
            [ChannelSet (object_key ext object_type (otai_serialize_object_id ext object_id))
               (serialize_counter_id_list ext (statenum ext object_type) counter_ids)
               REDIS_ASIC_STATE_COMMAND_GET_STATS])
         = (OTAI_STATUS_SUCCESS, kco)"
    and "length (kfvFieldsValues kco) \<noteq> length counter_ids"
  shows "fst (getStats ext object_type object_id counter_ids counters st)
           = Thrown ''wrong number of counters, got %zu, expected %u''
         \<and> fst (snd (getStats ext object_type object_id counter_ids counters st)) = counters"
proof -
  let ?cmd = "ChannelSet (object_key ext object_type (otai_serialize_object_id ext object_id))
               (serialize_counter_id_list ext (statenum ext object_type) counter_ids)
               REDIS_ASIC_STATE_COMMAND_GET_STATS"
  let ?st1 = "(SWSS_LOG LOG_DEBUG ''generic get stats key: %s, fields: %zu'' st)
                \<lparr>m_communicationChannel := Some (channel_call ?cmd ch)\<rparr>"
  have unfold: "getStats ext object_type object_id counter_ids counters st
      = waitForGetStatsResponse ext object_type counter_ids counters ?st1"
    using assms(1) by (simp add: getStats_def Let_def SWSS_LOG_def)
  have ch1: "m_communicationChannel ?st1 = Some (channel_call ?cmd ch)"
    by simp
  have reply: "wait_reply ext (calls (channel_call ?cmd ch)) = (OTAI_STATUS_SUCCESS, kco)"
    using assms(2) by (simp add: channel_call_def)
  show ?thesis
    unfolding unfold waitForGetStatsResponse_mismatch [OF ch1 reply assms(3)]
    by simp
qed

text \<open>
  The theorem at work: two counters asked for, success answered with no field.
\<close>

theorem getStats_count_mismatch_throws_witness:
  "m_communicationChannel (example_interface (example_externals 5 (empty_reply OTAI_STATUS_SUCCESS)))
     = Some \<lparr>dbName = ''ASIC_DB'', calls = [SetBuffered False]\<rparr>
   \<and> wait_reply (example_externals 5 (empty_reply OTAI_STATUS_SUCCESS))
        ([SetBuffered False] @
         [ChannelSet (object_key (example_externals 5 (empty_reply OTAI_STATUS_SUCCESS))
              OTAI_OBJECT_TYPE_LINECARD
              (otai_serialize_object_id (example_externals 5 (empty_reply OTAI_STATUS_SUCCESS)) 5))
            (serialize_counter_id_list (example_externals 5 (empty_reply OTAI_STATUS_SUCCESS))
               (statenum (example_externals 5 (empty_reply OTAI_STATUS_SUCCESS))
                  OTAI_OBJECT_TYPE_LINECARD) [1, 2])
            REDIS_ASIC_STATE_COMMAND_GET_STATS])
       = (OTAI_STATUS_SUCCESS, '''', '''', [])
   \<and> length (kfvFieldsValues ('''', '''', [])) \<noteq> length [1 :: otai_stat_id_t, 2]
   \<and> fst (getStats (example_externals 5 (empty_reply OTAI_STATUS_SUCCESS))
        OTAI_OBJECT_TYPE_LINECARD 5 [1, 2] [U64 0, U64 0]
        (example_interface (example_externals 5 (empty_reply OTAI_STATUS_SUCCESS))))
       = Thrown ''wrong number of counters, got %zu, expected %u''
   \<and> fst (snd (getStats (example_externals 5 (empty_reply OTAI_STATUS_SUCCESS))
        OTAI_OBJECT_TYPE_LINECARD 5 [1, 2] [U64 0, U64 0]
        (example_interface (example_externals 5 (empty_reply OTAI_STATUS_SUCCESS)))))
       = [U64 0, U64 0]"
proof -
  let ?ext = "example_externals 5 (empty_reply OTAI_STATUS_SUCCESS)"
  let ?ch = "\<lparr>dbName = ''ASIC_DB'', calls = [SetBuffered False]\<rparr>"
  have ch: "m_communicationChannel (example_interface ?ext) = Some ?ch"
    by (rule example_interface_simps)
  have reply: "wait_reply ?ext
        (calls ?ch @
         [ChannelSet (object_key ?ext OTAI_OBJECT_TYPE_LINECARD (otai_serialize_object_id ?ext 5))
            (serialize_counter_id_list ?ext (statenum ?ext OTAI_OBJECT_TYPE_LINECARD) [1, 2])
            REDIS_ASIC_STATE_COMMAND_GET_STATS])
       = (OTAI_STATUS_SUCCESS, '''', '''', [])"
    by (simp add: example_externals_def empty_reply_def)
  have count: "length (kfvFieldsValues ('''', '''', [])) \<noteq> length [1 :: otai_stat_id_t, 2]"
    by (simp add: kfvFieldsValues_def)
  from getStats_count_mismatch_throws [OF ch reply count, of "[U64 0, U64 0]"] ch reply count
  show ?thesis by simp
qed

text \<open>
  The counters are untouched because the count is tested before the loop, not because a
  throw would undo what the loop has stored: when the count is right and the second
  value cannot be read, the call throws with the first counter already written.
\<close>

lemma getStats_unreadable_value_keeps_stored_counters:
  "getStats (example_externals 5 (OTAI_STATUS_SUCCESS, [], [], [(''STAT'', ''7''), (''STAT'', ''?'')]))
     OTAI_OBJECT_TYPE_LINECARD 5 [1, 2] [U64 0, U64 0]
     (example_interface
        (example_externals 5 (OTAI_STATUS_SUCCESS, [], [], [(''STAT'', ''7''), (''STAT'', ''?'')])))
   = (Thrown ''stoull'', [U64 7, U64 0],
      (example_interface
         (example_externals 5 (OTAI_STATUS_SUCCESS, [], [], [(''STAT'', ''7''), (''STAT'', ''?'')])))
        \<lparr>m_communicationChannel :=
           Some \<lparr>dbName = ''ASIC_DB'',
                 calls = [SetBuffered False,
                          ChannelSet ''OTAI_OBJECT_TYPE_LINECARD:oid:0x1000000000000''
                            [(''STAT'', []), (''STAT'', [])] REDIS_ASIC_STATE_COMMAND_GET_STATS,
                          ChannelWait REDIS_ASIC_STATE_COMMAND_GETRESPONSE]\<rparr>,
         swss_log := swss_log (example_interface
             (example_externals 5 (OTAI_STATUS_SUCCESS, [], [], [(''STAT'', ''7''), (''STAT'', ''?'')])))
           @ [(LOG_DEBUG, ''generic get stats key: %s, fields: %zu'')]\<rparr>)"
  by (simp add: getStats_def waitForGetStatsResponse_def channel_wait_def channel_call_def
      object_key_def kfvFieldsValues_def fvValue_def SWSS_LOG_def Let_def
      example_interface_simps example_externals_simps)

subsection \<open>Notifications without a linecard\<close>

text \<open>
  Claim C5. A \<^verbatim>\<open>remove\<close> of the linecard that returns success leaves no linecard
  tracked. While no linecard is tracked, \<^verbatim>\<open>syncProcessNotification\<close> answers with
  the table of four null pointers and tracks no linecard afterwards, and
  \<^verbatim>\<open>handleNotification\<close>, bound to it, calls no user callback: the notification is
  gone. So a notification that arrives after the successful remove calls no callback.
\<close>

theorem remove_linecard_drops_notifications:
  "(fst (remove_oid ext OTAI_OBJECT_TYPE_LINECARD objectId st) = Returned OTAI_STATUS_SUCCESS \<longrightarrow>
      m_linecard (snd (remove_oid ext OTAI_OBJECT_TYPE_LINECARD objectId st)) = None)
   \<and> (m_linecard st = None \<and> m_virtualObjectIdManager st = Some v \<longrightarrow>
      fst (syncProcessNotification ext notification st) = Returned no_notifications
      \<and> m_linecard (snd (syncProcessNotification ext notification st)) = None
      \<and> fst (handleNotification ext (syncProcessNotification ext)
                name serializedNotification values st) = Returned [])
   \<and> (fst (remove_oid ext OTAI_OBJECT_TYPE_LINECARD objectId st) = Returned OTAI_STATUS_SUCCESS
        \<and> m_virtualObjectIdManager st = Some v \<longrightarrow>
      fst (handleNotification ext (syncProcessNotification ext)
             name serializedNotification values
             (snd (remove_oid ext OTAI_OBJECT_TYPE_LINECARD objectId st))) = Returned [])"
proof -
  have removed: "m_linecard (snd (remove_oid ext OTAI_OBJECT_TYPE_LINECARD objectId st)) = None"
    if "fst (remove_oid ext OTAI_OBJECT_TYPE_LINECARD objectId st) = Returned OTAI_STATUS_SUCCESS"
    using that by (auto simp add: remove_oid_def split: prod.splits if_splits)
  have dropped: "fst (handleNotification ext (syncProcessNotification ext)
                name serializedNotification values s) = Returned []"
    if "m_linecard s = None" and "m_virtualObjectIdManager s = Some v" for s
  proof (cases "deserialize ext name serializedNotification")
    case None
    then show ?thesis by (simp add: handleNotification_def)
  next
    case (Some n)
    from syncProcessNotification_no_linecard(1) [OF that, of ext n]
    have "fst (syncProcessNotification ext n s) = Returned no_notifications" .
    then show ?thesis using Some
      by (cases "syncProcessNotification ext n s")
        (simp add: handleNotification_def executeCallback_no_notifications)
  qed
  show ?thesis
    using removed dropped syncProcessNotification_no_linecard [of st v ext notification]
      remove_oid_keeps_manager [of ext OTAI_OBJECT_TYPE_LINECARD objectId st]
    by simp
qed

text \<open>
  The theorem at work: on the example interface with a linecard, a notification calls
  the callback \<open>1\<close>; after the linecard has been removed the same notification calls
  nothing. The last three lines are the fresh interface, which never had a linecard.
\<close>

theorem remove_linecard_drops_notifications_witness:
  "fst (handleNotification (example_externals 5 (empty_reply OTAI_STATUS_SUCCESS))
          (syncProcessNotification (example_externals 5 (empty_reply OTAI_STATUS_SUCCESS)))
          ''linecard_state_change'' ''{}'' []
          (example_linecard_interface (example_externals 5 (empty_reply OTAI_STATUS_SUCCESS))))
     = Returned [1]
   \<and> fst (remove_oid (example_externals 5 (empty_reply OTAI_STATUS_SUCCESS)) OTAI_OBJECT_TYPE_LINECARD 5
        (example_linecard_interface (example_externals 5 (empty_reply OTAI_STATUS_SUCCESS))))
     = Returned OTAI_STATUS_SUCCESS
   \<and> m_virtualObjectIdManager
        (example_linecard_interface (example_externals 5 (empty_reply OTAI_STATUS_SUCCESS))) = Some 0
   \<and> m_linecard (snd (remove_oid (example_externals 5 (empty_reply OTAI_STATUS_SUCCESS))
        OTAI_OBJECT_TYPE_LINECARD 5
        (example_linecard_interface (example_externals 5 (empty_reply OTAI_STATUS_SUCCESS))))) = None
   \<and> fst (handleNotification (example_externals 5 (empty_reply OTAI_STATUS_SUCCESS))
          (syncProcessNotification (example_externals 5 (empty_reply OTAI_STATUS_SUCCESS)))
          ''linecard_state_change'' ''{}'' []
          (snd (remove_oid (example_externals 5 (empty_reply OTAI_STATUS_SUCCESS))
             OTAI_OBJECT_TYPE_LINECARD 5
             (example_linecard_interface (example_externals 5 (empty_reply OTAI_STATUS_SUCCESS))))))
     = Returned []
   \<and> m_linecard (example_interface (example_externals 5 (empty_reply OTAI_STATUS_SUCCESS))) = None
   \<and> m_virtualObjectIdManager
        (example_interface (example_externals 5 (empty_reply OTAI_STATUS_SUCCESS))) = Some 0
   \<and> fst (syncProcessNotification (example_externals 5 (empty_reply OTAI_STATUS_SUCCESS))
        \<lparr>notificationName = ''linecard_state_change'', notificationBody = ''{}''\<rparr>
        (example_interface (example_externals 5 (empty_reply OTAI_STATUS_SUCCESS))))
     = Returned no_notifications"
proof -
  let ?ext = "example_externals 5 (empty_reply OTAI_STATUS_SUCCESS)"
  let ?n = "\<lparr>notificationName = ''linecard_state_change'', notificationBody = ''{}''\<rparr>"
  let ?tracked = "example_linecard_interface ?ext"
  have before: "fst (handleNotification ?ext (syncProcessNotification ?ext)
          ''linecard_state_change'' ''{}'' [] ?tracked) = Returned [1]"
    by (simp add: handleNotification_def syncProcessNotification_def executeCallback_def
        getLinecardNotifications_def example_linecard_interface_simps example_externals_simps
        Let_def)
  have removed: "fst (remove_oid ?ext OTAI_OBJECT_TYPE_LINECARD 5 ?tracked)
      = Returned OTAI_STATUS_SUCCESS"
    by (simp add: remove_oid_def remove_key_Some example_linecard_interface_simps
        example_externals_simps empty_reply_simps Let_def)
  have mgr: "m_virtualObjectIdManager ?tracked = Some 0"
    by (rule example_linecard_interface_simps)
  have fresh: "m_linecard (example_interface ?ext) = None"
    "m_virtualObjectIdManager (example_interface ?ext) = Some 0"
    by (rule example_interface_simps)+
  from remove_linecard_drops_notifications [of ?ext 5 ?tracked 0 ?n
      "''linecard_state_change''" "''{}''" "[]"]
    remove_linecard_drops_notifications [of ?ext 5 "example_interface ?ext" 0 ?n
      "''linecard_state_change''" "''{}''" "[]"]
    before removed mgr fresh
  show ?thesis by simp
qed

subsection \<open>Notifications after the metadata has gone\<close>

text \<open>
  Claim C6. When the weak pointer to the metadata cannot be locked,
  \<^verbatim>\<open>syncProcessNotification\<close> writes the warning to the log and answers with the
  table of four null pointers; nothing else of the state changes, so no metadata is
  processed, and nothing is thrown. \<^verbatim>\<open>handleNotification\<close>, bound to it, returns
  without having called a user callback.
\<close>

theorem expired_meta_drops_notification:
  assumes "m_meta st = None"
  shows "syncProcessNotification ext notification st
           = (Returned no_notifications,
              st\<lparr>swss_log := swss_log st @ [(LOG_WARN, ''meta pointer expired'')]\<rparr>)
         \<and> fst (handleNotification ext (syncProcessNotification ext)
                  name serializedNotification values st) = Returned []
         \<and> m_meta (snd (handleNotification ext (syncProcessNotification ext)
                  name serializedNotification values st)) = None"
proof -
  have sync: "syncProcessNotification ext n st
           = (Returned no_notifications,
              st\<lparr>swss_log := swss_log st @ [(LOG_WARN, ''meta pointer expired'')]\<rparr>)" for n
    using assms by (simp add: syncProcessNotification_def no_notifications_def SWSS_LOG_def)
  show ?thesis
    using assms
    by (cases "deserialize ext name serializedNotification")
      (simp_all add: sync handleNotification_def executeCallback_no_notifications)
qed

text \<open>
  The theorem at work: a linecard with a callback is tracked, the metadata has expired,
  and the notification calls nothing.
\<close>

theorem expired_meta_drops_notification_witness:
  "m_meta (setMeta None (example_linecard_interface (example_externals 5 (empty_reply OTAI_STATUS_SUCCESS))))
     = None
   \<and> m_linecard (setMeta None (example_linecard_interface (example_externals 5 (empty_reply OTAI_STATUS_SUCCESS))))
     = Some \<lparr>m_linecardId = 5, m_linecardNotifications = [Some 1, None, None, None]\<rparr>
   \<and> fst (syncProcessNotification (example_externals 5 (empty_reply OTAI_STATUS_SUCCESS))
        \<lparr>notificationName = ''linecard_state_change'', notificationBody = ''{}''\<rparr>
        (setMeta None (example_linecard_interface (example_externals 5 (empty_reply OTAI_STATUS_SUCCESS)))))
     = Returned [None, None, None, None]
   \<and> fst (handleNotification (example_externals 5 (empty_reply OTAI_STATUS_SUCCESS))
          (syncProcessNotification (example_externals 5 (empty_reply OTAI_STATUS_SUCCESS)))
          ''linecard_state_change'' ''{}'' []
          (setMeta None (example_linecard_interface (example_externals 5 (empty_reply OTAI_STATUS_SUCCESS)))))
     = Returned []"
proof -
  let ?ext = "example_externals 5 (empty_reply OTAI_STATUS_SUCCESS)"
  let ?n = "\<lparr>notificationName = ''linecard_state_change'', notificationBody = ''{}''\<rparr>"
  let ?st = "setMeta None (example_linecard_interface ?ext)"
  have expired: "m_meta ?st = None"
    by (simp add: setMeta_def)
  have tracked: "m_linecard ?st
     = Some \<lparr>m_linecardId = 5, m_linecardNotifications = [Some 1, None, None, None]\<rparr>"
    by (simp add: setMeta_def example_linecard_interface_simps)
  from expired_meta_drops_notification [OF expired, of ?ext ?n
      "''linecard_state_change''" "''{}''" "[]"] expired tracked
  show ?thesis by (simp add: no_notifications_def)
qed

subsection \<open>The object id lists of get\<close>

text \<open>
  Claim C8. The GET command that \<^verbatim>\<open>get\<close> enqueues, before its one wait, carries
  the serialization of the caller's buffer after \<^verbatim>\<open>clearOidValues\<close>; in that
  buffer every object id list holds null object ids only, and the attribute ids are
  those the caller gave. What the lists held before is not part of the payload.
\<close>

theorem get_clears_oid_lists:
  assumes "m_communicationChannel st = Some ch"
  shows "map_option calls
           (m_communicationChannel (snd (snd (get_oid ext objectType objectId attr_list st))))
         = Some (calls ch @
             [ChannelSet (object_key ext objectType (otai_serialize_object_id ext objectId))
                (serialize_attr_list ext objectType (clearOidValues objectType attr_list) False)
                REDIS_ASIC_STATE_COMMAND_GET,
              ChannelWait REDIS_ASIC_STATE_COMMAND_GETRESPONSE])
       \<and> (\<forall>a \<in> set (clearOidValues objectType attr_list). \<forall>oids.
             attr_value a = OBJECT_LIST oids \<longrightarrow> (\<forall>oid \<in> set oids. oid = OTAI_NULL_OBJECT_ID))
       \<and> map attr_id (clearOidValues objectType attr_list) = map attr_id attr_list"
proof -
  let ?cmd = "ChannelSet (object_key ext objectType (otai_serialize_object_id ext objectId))
               (serialize_attr_list ext objectType (clearOidValues objectType attr_list) False)
               REDIS_ASIC_STATE_COMMAND_GET"
  let ?st1 = "(SWSS_LOG LOG_DEBUG ''generic get key: %s, fields: %lu'' st)
                \<lparr>m_communicationChannel := Some (channel_call ?cmd ch)\<rparr>"
  have unfold: "get_oid ext objectType objectId attr_list st
      = waitForGetResponse ext objectType (clearOidValues objectType attr_list) ?st1"
    using assms by (simp add: get_oid_def get_key_def Let_def SWSS_LOG_def)
  have ch1: "m_communicationChannel ?st1 = Some (channel_call ?cmd ch)"
    by simp
  have sent: "map_option calls
           (m_communicationChannel (snd (snd (get_oid ext objectType objectId attr_list st))))
         = Some (calls ch @ [?cmd, ChannelWait REDIS_ASIC_STATE_COMMAND_GETRESPONSE])"
    unfolding unfold waitForGetResponse_calls [OF ch1]
    by (simp add: channel_call_def)
  have ids: "map attr_id (clearOidValues objectType attr_list) = map attr_id attr_list"
    by (simp add: clearOidValues_def)
  from sent ids show ?thesis
    by (blast dest: clearOidValues_null)
qed

text \<open>
  The theorem at work: a buffer whose object id list holds the stale ids 7 and 9 would
  be serialized as \<open>x,x,\<close>; \<^verbatim>\<open>get\<close> sends \<open>0,0,\<close>.
\<close>

theorem get_clears_oid_lists_witness:
  "m_communicationChannel (example_interface (example_externals 5 (empty_reply OTAI_STATUS_FAILURE)))
     = Some \<lparr>dbName = ''ASIC_DB'', calls = [SetBuffered False]\<rparr>
   \<and> serialize_attr_list (example_externals 5 (empty_reply OTAI_STATUS_FAILURE))
        OTAI_OBJECT_TYPE_LINECARD [\<lparr>attr_id = 1, attr_value = OBJECT_LIST [7, 9]\<rparr>] False
     = [(''ATTR'', ''x,x,'')]
   \<and> clearOidValues OTAI_OBJECT_TYPE_LINECARD [\<lparr>attr_id = 1, attr_value = OBJECT_LIST [7, 9]\<rparr>]
     = [\<lparr>attr_id = 1, attr_value = OBJECT_LIST [OTAI_NULL_OBJECT_ID, OTAI_NULL_OBJECT_ID]\<rparr>]
   \<and> map_option calls (m_communicationChannel (snd (snd
        (get_oid (example_externals 5 (empty_reply OTAI_STATUS_FAILURE))
           OTAI_OBJECT_TYPE_LINECARD 5 [\<lparr>attr_id = 1, attr_value = OBJECT_LIST [7, 9]\<rparr>]
           (example_interface (example_externals 5 (empty_reply OTAI_STATUS_FAILURE)))))))
     = Some [SetBuffered False,
             ChannelSet ''OTAI_OBJECT_TYPE_LINECARD:oid:0x1000000000000'' [(''ATTR'', ''0,0,'')]
               REDIS_ASIC_STATE_COMMAND_GET,
             ChannelWait REDIS_ASIC_STATE_COMMAND_GETRESPONSE]"
proof -
  let ?ext = "example_externals 5 (empty_reply OTAI_STATUS_FAILURE)"
  let ?attrs = "[\<lparr>attr_id = 1, attr_value = OBJECT_LIST [7, 9]\<rparr>]"
  let ?ch = "\<lparr>dbName = ''ASIC_DB'', calls = [SetBuffered False]\<rparr>"
  have ch: "m_communicationChannel (example_interface ?ext) = Some ?ch"
    by (rule example_interface_simps)
  have stale: "serialize_attr_list ?ext OTAI_OBJECT_TYPE_LINECARD ?attrs False
     = [(''ATTR'', ''x,x,'')]"
    by (simp add: example_externals_simps)
  have cleared: "clearOidValues OTAI_OBJECT_TYPE_LINECARD ?attrs
     = [\<lparr>attr_id = 1, attr_value = OBJECT_LIST [OTAI_NULL_OBJECT_ID, OTAI_NULL_OBJECT_ID]\<rparr>]"
    by (simp add: clearOidValues_def)
  have payload: "serialize_attr_list ?ext OTAI_OBJECT_TYPE_LINECARD
       [\<lparr>attr_id = 1, attr_value = OBJECT_LIST [OTAI_NULL_OBJECT_ID, OTAI_NULL_OBJECT_ID]\<rparr>] False
     = [(''ATTR'', ''0,0,'')]"
    by (simp add: example_externals_simps OTAI_NULL_OBJECT_ID_def)
  have key: "object_key ?ext OTAI_OBJECT_TYPE_LINECARD (otai_serialize_object_id ?ext 5)
     = ''OTAI_OBJECT_TYPE_LINECARD:oid:0x1000000000000''"
    by (simp add: object_key_def example_externals_simps)
  from get_clears_oid_lists [OF ch, of ?ext OTAI_OBJECT_TYPE_LINECARD 5 ?attrs]
  have "map_option calls (m_communicationChannel (snd (snd
        (get_oid ?ext OTAI_OBJECT_TYPE_LINECARD 5 ?attrs (example_interface ?ext)))))
     = Some (calls ?ch @
         [ChannelSet (object_key ?ext OTAI_OBJECT_TYPE_LINECARD (otai_serialize_object_id ?ext 5))
            (serialize_attr_list ?ext OTAI_OBJECT_TYPE_LINECARD
               (clearOidValues OTAI_OBJECT_TYPE_LINECARD ?attrs) False)
            REDIS_ASIC_STATE_COMMAND_GET,
          ChannelWait REDIS_ASIC_STATE_COMMAND_GETRESPONSE])"
    by (rule conjunct1)
  then have "map_option calls (m_communicationChannel (snd (snd
        (get_oid ?ext OTAI_OBJECT_TYPE_LINECARD 5 ?attrs (example_interface ?ext)))))
     = Some [SetBuffered False,
             ChannelSet ''OTAI_OBJECT_TYPE_LINECARD:oid:0x1000000000000'' [(''ATTR'', ''0,0,'')]
               REDIS_ASIC_STATE_COMMAND_GET,
             ChannelWait REDIS_ASIC_STATE_COMMAND_GETRESPONSE]"
    unfolding cleared payload key by simp
  with ch stale cleared show ?thesis by simp
qed

subsection \<open>Initialize and uninitialize\<close>

text \<open>
  Claim C9. \<^verbatim>\<open>initialize\<close> on an initialized interface returns
  \<open>OTAI_STATUS_FAILURE\<close> and the interface stays initialized; \<^verbatim>\<open>uninitialize\<close>
  on an interface that is not initialized returns \<open>OTAI_STATUS_FAILURE\<close> and it stays
  so. Otherwise \<^verbatim>\<open>initialize\<close> succeeds, the interface is initialized and tracks
  no linecard, and \<^verbatim>\<open>uninitialize\<close> succeeds and the interface is not initialized.
\<close>

theorem lifecycle_state_machine:
  "(m_initialized st \<longrightarrow>
      fst (initialize ext flags service_method_table st) = OTAI_STATUS_FAILURE
      \<and> m_initialized (snd (initialize ext flags service_method_table st)))
   \<and> (\<not> m_initialized st \<longrightarrow>
      fst (uninitialize ext st) = OTAI_STATUS_FAILURE
      \<and> \<not> m_initialized (snd (uninitialize ext st)))
   \<and> (\<not> m_initialized st \<longrightarrow>
      fst (initialize ext flags service_method_table st) = OTAI_STATUS_SUCCESS
      \<and> m_initialized (snd (initialize ext flags service_method_table st))
      \<and> m_linecard (snd (initialize ext flags service_method_table st)) = None)
   \<and> (m_initialized st \<longrightarrow>
      fst (uninitialize ext st) = OTAI_STATUS_SUCCESS
      \<and> \<not> m_initialized (snd (uninitialize ext st)))"
  by (simp add: initialize_def uninitialize_def clear_local_state_def SWSS_LOG_def Let_def)

text \<open>
  The theorem at work: the example interface with its linecard, as it is and with the
  flag \<open>m_initialized\<close> cleared.
\<close>

theorem lifecycle_state_machine_witness:
  "m_initialized (example_linecard_interface (example_externals 5 (empty_reply OTAI_STATUS_SUCCESS)))
   \<and> fst (initialize (example_externals 5 (empty_reply OTAI_STATUS_SUCCESS)) 0 None
        (example_linecard_interface (example_externals 5 (empty_reply OTAI_STATUS_SUCCESS))))
     = OTAI_STATUS_FAILURE
   \<and> fst (uninitialize (example_externals 5 (empty_reply OTAI_STATUS_SUCCESS))
        (example_linecard_interface (example_externals 5 (empty_reply OTAI_STATUS_SUCCESS))))
     = OTAI_STATUS_SUCCESS
   \<and> \<not> m_initialized
        ((example_linecard_interface (example_externals 5 (empty_reply OTAI_STATUS_SUCCESS)))
           \<lparr>m_initialized := False\<rparr>)
   \<and> m_linecard
        ((example_linecard_interface (example_externals 5 (empty_reply OTAI_STATUS_SUCCESS)))
           \<lparr>m_initialized := False\<rparr>)
     = Some \<lparr>m_linecardId = 5, m_linecardNotifications = [Some 1, None, None, None]\<rparr>
   \<and> fst (uninitialize (example_externals 5 (empty_reply OTAI_STATUS_SUCCESS))
        ((example_linecard_interface (example_externals 5 (empty_reply OTAI_STATUS_SUCCESS)))
           \<lparr>m_initialized := False\<rparr>))
     = OTAI_STATUS_FAILURE
   \<and> fst (initialize (example_externals 5 (empty_reply OTAI_STATUS_SUCCESS)) 0 None
        ((example_linecard_interface (example_externals 5 (empty_reply OTAI_STATUS_SUCCESS)))
           \<lparr>m_initialized := False\<rparr>))
     = OTAI_STATUS_SUCCESS
   \<and> m_linecard (snd (initialize (example_externals 5 (empty_reply OTAI_STATUS_SUCCESS)) 0 None
        ((example_linecard_interface (example_externals 5 (empty_reply OTAI_STATUS_SUCCESS)))
           \<lparr>m_initialized := False\<rparr>)))
     = None"
proof -
  let ?ext = "example_externals 5 (empty_reply OTAI_STATUS_SUCCESS)"
  let ?on = "example_linecard_interface ?ext"
  let ?off = "?on\<lparr>m_initialized := False\<rparr>"
  have on: "m_initialized ?on"
    by (rule example_linecard_interface_simps)
  have off: "\<not> m_initialized ?off"
    by simp
  have tracked: "m_linecard ?off
     = Some \<lparr>m_linecardId = 5, m_linecardNotifications = [Some 1, None, None, None]\<rparr>"
    by (simp add: example_linecard_interface_simps)
  from lifecycle_state_machine [of ?on ?ext 0 None] lifecycle_state_machine [of ?off ?ext 0 None]
    on off tracked
  show ?thesis by simp
qed

subsection \<open>Set on the linecard while none is tracked\<close>

text \<open>
  Claim C10. A \<^verbatim>\<open>set\<close> on the linecard with an attribute below the extension
  range, answered with success while no linecard is tracked, returns success, and the
  state it leaves is the one of the SET round trip: no linecard is tracked afterwards
  and no table of callbacks is touched.
\<close>

theorem set_linecard_without_tracked_linecard:
  assumes "m_communicationChannel st = Some ch"
    and "m_linecard st = None"
    and "attr_id a < OTAI_LINECARD_ATTR_CUSTOM_RANGE_START ext"
    and "wait_reply ext
           (calls ch @
            [ChannelSet (object_key ext OTAI_OBJECT_TYPE_LINECARD (otai_serialize_object_id ext objectId))
               (serialize_attr_list ext OTAI_OBJECT_TYPE_LINECARD [a] False)
               REDIS_ASIC_STATE_COMMAND_SET])
         = (OTAI_STATUS_SUCCESS, kco)"
  shows "fst (set_oid ext OTAI_OBJECT_TYPE_LINECARD objectId (Some a) st)
           = Returned OTAI_STATUS_SUCCESS
         \<and> m_linecard (snd (set_oid ext OTAI_OBJECT_TYPE_LINECARD objectId (Some a) st)) = None
         \<and> snd (set_oid ext OTAI_OBJECT_TYPE_LINECARD objectId (Some a) st)
           = snd (set_key ext OTAI_OBJECT_TYPE_LINECARD (otai_serialize_object_id ext objectId)
                    (Some a) st)"
  using assms
  by (simp add: set_oid_def isRedisAttribute_def set_key_Some Let_def SWSS_LOG_def
      channel_call_def)

text \<open>
  The theorem at work: the fresh example interface, which tracks no linecard.
\<close>

theorem set_linecard_without_tracked_linecard_witness:
  "m_communicationChannel (example_interface (example_externals 5 (empty_reply OTAI_STATUS_SUCCESS)))
     = Some \<lparr>dbName = ''ASIC_DB'', calls = [SetBuffered False]\<rparr>
   \<and> m_linecard (example_interface (example_externals 5 (empty_reply OTAI_STATUS_SUCCESS))) = None
   \<and> attr_id \<lparr>attr_id = 1, attr_value = OTHER_VALUE ''up''\<rparr>
     < OTAI_LINECARD_ATTR_CUSTOM_RANGE_START (example_externals 5 (empty_reply OTAI_STATUS_SUCCESS))
   \<and> wait_reply (example_externals 5 (empty_reply OTAI_STATUS_SUCCESS))
        ([SetBuffered False] @
         [ChannelSet (object_key (example_externals 5 (empty_reply OTAI_STATUS_SUCCESS))
              OTAI_OBJECT_TYPE_LINECARD
              (otai_serialize_object_id (example_externals 5 (empty_reply OTAI_STATUS_SUCCESS)) 5))
            (serialize_attr_list (example_externals 5 (empty_reply OTAI_STATUS_SUCCESS))
               OTAI_OBJECT_TYPE_LINECARD [\<lparr>attr_id = 1, attr_value = OTHER_VALUE ''up''\<rparr>] False)
            REDIS_ASIC_STATE_COMMAND_SET])
       = (OTAI_STATUS_SUCCESS, [], [], [])
   \<and> fst (set_oid (example_externals 5 (empty_reply OTAI_STATUS_SUCCESS)) OTAI_OBJECT_TYPE_LINECARD 5
        (Some \<lparr>attr_id = 1, attr_value = OTHER_VALUE ''up''\<rparr>)
        (example_interface (example_externals 5 (empty_reply OTAI_STATUS_SUCCESS))))
     = Returned OTAI_STATUS_SUCCESS
   \<and> m_linecard (snd (set_oid (example_externals 5 (empty_reply OTAI_STATUS_SUCCESS))
        OTAI_OBJECT_TYPE_LINECARD 5 (Some \<lparr>attr_id = 1, attr_value = OTHER_VALUE ''up''\<rparr>)
        (example_interface (example_externals 5 (empty_reply OTAI_STATUS_SUCCESS)))))
     = None"
proof -
  let ?ext = "example_externals 5 (empty_reply OTAI_STATUS_SUCCESS)"
  let ?a = "\<lparr>attr_id = 1, attr_value = OTHER_VALUE ''up''\<rparr>"
  let ?ch = "\<lparr>dbName = ''ASIC_DB'', calls = [SetBuffered False]\<rparr>"
  have ch: "m_communicationChannel (example_interface ?ext) = Some ?ch"
    by (rule example_interface_simps)
  have none: "m_linecard (example_interface ?ext) = None"
    by (rule example_interface_simps)
  have below: "attr_id ?a < OTAI_LINECARD_ATTR_CUSTOM_RANGE_START ?ext"
    by (simp add: example_externals_simps)
  have reply: "wait_reply ?ext
        (calls ?ch @
         [ChannelSet (object_key ?ext OTAI_OBJECT_TYPE_LINECARD (otai_serialize_object_id ?ext 5))
            (serialize_attr_list ?ext OTAI_OBJECT_TYPE_LINECARD [?a] False)
            REDIS_ASIC_STATE_COMMAND_SET])
       = (OTAI_STATUS_SUCCESS, [], [], [])"
    by (simp add: example_externals_simps empty_reply_def)
  have reply': "wait_reply ?ext
        ([SetBuffered False] @
         [ChannelSet (object_key ?ext OTAI_OBJECT_TYPE_LINECARD (otai_serialize_object_id ?ext 5))
            (serialize_attr_list ?ext OTAI_OBJECT_TYPE_LINECARD [?a] False)
            REDIS_ASIC_STATE_COMMAND_SET])
       = (OTAI_STATUS_SUCCESS, [], [], [])"
    using reply by simp
  note result = set_linecard_without_tracked_linecard [OF ch none below reply]
  from result have status: "fst (set_oid ?ext OTAI_OBJECT_TYPE_LINECARD 5 (Some ?a)
      (example_interface ?ext)) = Returned OTAI_STATUS_SUCCESS"
    by (rule conjunct1)
  from result have absent: "m_linecard (snd (set_oid ?ext OTAI_OBJECT_TYPE_LINECARD 5 (Some ?a)
      (example_interface ?ext))) = None"
    by (rule conjunct1 [OF conjunct2])
  from ch none below reply' status absent show ?thesis
    by blast
qed

end
